theory Spec2Isabelle
  imports Main
begin

section \<open>JavaScript values\<close>

text \<open>
  The program is TypeScript over untyped JSON: every remote payload and every tool argument
  has type \<open>any\<close>. Values are therefore modelled by one datatype. Strings are byte strings
  (the UTF-8 encoding of the JavaScript string). Numbers are integers, as the envelope's
  \<open>code\<close> and the HTTP status are: the integers a JavaScript number holds exactly and
  prints in plain decimal (magnitude below 2^53). Fractional and larger numbers are outside
  the model. An object is
  the list of its own properties in enumeration order, with distinct keys; \<open>get_prop\<close>
  reads the first binding of a key. None of the property names the program reads is
  inherited from a prototype, so a key that is not bound reads as \<open>undefined\<close>.
\<close>

datatype jsval =
    JUndefined
  | JNull
  | JBool bool
  | JNum int
  | JStr string
  | JArr "jsval list"
  | JObj "(string \<times> jsval) list"

text \<open>Thrown values. Every value the program throws or catches is an \<open>Error\<close> instance;
  the handlers read only its \<open>message\<close>.\<close>

datatype js_error =
    Error string
  | TypeError string
  | SyntaxError string

fun message :: "js_error \<Rightarrow> string" where
  "message (Error m) = m"
| "message (TypeError m) = m"
| "message (SyntaxError m) = m"

text \<open>The faults the engine itself raises while running the program's expressions.\<close>

datatype fault =
    ReadOfNullish string      \<comment> \<open>property read (or destructuring) on \<open>null\<close>/\<open>undefined\<close>\<close>
  | NotAFunction string       \<comment> \<open>call of a method the receiver does not have\<close>

text \<open>
  What the runtime supplies and the repository does not contain, taken as parameters:
  the text of the engine's own error messages, the conversion of a string to a number
  that \<open>==\<close> applies (\<open>None\<close> when the string denotes no integer), and the result of
  \<open>new URL(s).pathname\<close> on the inputs outside the fragment of the URL standard that is
  modelled below (\<open>Inl\<close> when the constructor throws).
\<close>

record platform =
  fault_message :: "fault \<Rightarrow> string"
  string_to_number :: "string \<Rightarrow> int option"
  url_pathname_other :: "string \<Rightarrow> js_error + string"

subsection \<open>Truthiness, property reads\<close>

fun truthy :: "jsval \<Rightarrow> bool" where
  "truthy JUndefined = False"
| "truthy JNull = False"
| "truthy (JBool b) = b"
| "truthy (JNum n) = (n \<noteq> 0)"
| "truthy (JStr s) = (s \<noteq> [])"
| "truthy (JArr xs) = True"
| "truthy (JObj kvs) = True"

text \<open>\<open>a || b\<close>\<close>

definition js_or :: "jsval \<Rightarrow> jsval \<Rightarrow> jsval" where
  "js_or a b = (if truthy a then a else b)"

fun nullish :: "jsval \<Rightarrow> bool" where
  "nullish JUndefined = True"
| "nullish JNull = True"
| "nullish v = False"

text \<open>\<open>v[k]\<close> on a value that is neither \<open>null\<close> nor \<open>undefined\<close>.\<close>

fun get_prop :: "jsval \<Rightarrow> string \<Rightarrow> jsval" where
  "get_prop (JObj kvs) k = (case map_of kvs k of Some v \<Rightarrow> v | None \<Rightarrow> JUndefined)"
| "get_prop v k = JUndefined"

text \<open>\<open>Object.keys(v)\<close>\<close>

fun keys :: "jsval \<Rightarrow> string list" where
  "keys (JObj kvs) = map fst kvs"
| "keys v = []"

text \<open>\<open>v.k\<close>: a \<open>TypeError\<close> on \<open>null\<close> and \<open>undefined\<close>.\<close>

definition read_prop :: "platform \<Rightarrow> jsval \<Rightarrow> string \<Rightarrow> js_error + jsval" where
  "read_prop pf v k =
     (if nullish v then Inl (TypeError (fault_message pf (ReadOfNullish k)))
      else Inr (get_prop v k))"

text \<open>\<open>v?.k\<close>\<close>

definition opt_prop :: "jsval \<Rightarrow> string \<Rightarrow> jsval" where
  "opt_prop v k = (if nullish v then JUndefined else get_prop v k)"

subsection \<open>Conversion to string\<close>

definition digit_char :: "nat \<Rightarrow> char" where
  "digit_char d = ''0123456789'' ! d"

function show_nat :: "nat \<Rightarrow> string" where
  "show_nat n = (if n < 10 then [digit_char n] else show_nat (n div 10) @ [digit_char (n mod 10)])"
  by pat_completeness auto
termination
  by (relation "measure id") auto

declare show_nat.simps [simp del]

definition show_int :: "int \<Rightarrow> string" where
  "show_int i = (if i < 0 then CHR ''-'' # show_nat (nat (- i)) else show_nat (nat i))"

fun join :: "string \<Rightarrow> string list \<Rightarrow> string" where
  "join sep [] = []"
| "join sep [x] = x"
| "join sep (x # y # ys) = x @ sep @ join sep (y # ys)"

text \<open>
  \<open>String(v)\<close>, \<open>`${v}`\<close> and \<open>"..." + v\<close>. \<open>Array.prototype.join\<close> renders \<open>null\<close> and
  \<open>undefined\<close> elements as the empty string.
\<close>

fun to_string :: "jsval \<Rightarrow> string" where
  "to_string JUndefined = ''undefined''"
| "to_string JNull = ''null''"
| "to_string (JBool b) = (if b then ''true'' else ''false'')"
| "to_string (JNum n) = show_int n"
| "to_string (JStr s) = s"
| "to_string (JArr xs) = join '','' (map (\<lambda>x. if nullish x then [] else to_string x) xs)"
| "to_string (JObj kvs) = ''[object Object]''"

text \<open>\<open>new Error(v)\<close>: the message is \<open>String(v)\<close> unless \<open>v\<close> is \<open>undefined\<close>, where it is
  the prototype's empty message.\<close>

definition new_Error :: "jsval \<Rightarrow> js_error" where
  "new_Error v = Error (if v = JUndefined then [] else to_string v)"

text \<open>\<open>v == s\<close> for a string \<open>s\<close> (abstract equality).\<close>

fun loose_eq_string :: "platform \<Rightarrow> jsval \<Rightarrow> string \<Rightarrow> bool" where
  "loose_eq_string pf JUndefined s = False"
| "loose_eq_string pf JNull s = False"
| "loose_eq_string pf (JBool b) s = (string_to_number pf s = Some (if b then 1 else 0))"
| "loose_eq_string pf (JNum n) s = (string_to_number pf s = Some n)"
| "loose_eq_string pf (JStr t) s = (t = s)"
| "loose_eq_string pf (JArr xs) s = (to_string (JArr xs) = s)"
| "loose_eq_string pf (JObj kvs) s = (to_string (JObj kvs) = s)"

subsection \<open>JSON.stringify\<close>

definition hex_digit :: "nat \<Rightarrow> char" where
  "hex_digit d = ''0123456789abcdef'' ! d"

definition json_escape :: "char \<Rightarrow> string" where
  "json_escape c =
     (if c = CHR 0x22 then [CHR 0x5C, CHR 0x22]
      else if c = CHR 0x5C then [CHR 0x5C, CHR 0x5C]
      else if c = CHR 0x08 then [CHR 0x5C, CHR ''b'']
      else if c = CHR 0x09 then [CHR 0x5C, CHR ''t'']
      else if c = CHR 0x0A then [CHR 0x5C, CHR ''n'']
      else if c = CHR 0x0C then [CHR 0x5C, CHR ''f'']
      else if c = CHR 0x0D then [CHR 0x5C, CHR ''r'']
      else if (of_char c :: nat) < 32
        then [CHR 0x5C, CHR ''u'', CHR ''0'', CHR ''0'',
              hex_digit (of_char c div 16), hex_digit (of_char c mod 16)]
      else [c])"

definition json_quote :: "string \<Rightarrow> string" where
  "json_quote s = [CHR 0x22] @ concat (map json_escape s) @ [CHR 0x22]"

text \<open>
  The text \<open>JSON.stringify\<close> produces. A property whose value is \<open>undefined\<close> is left out
  of an object, and an \<open>undefined\<close> array element is written \<open>null\<close>. The program applies
  \<open>JSON.stringify\<close> to object literals only, so the top-level \<open>undefined\<close> (where JavaScript
  returns no string at all) does not arise; the first equation is for array elements.
\<close>

fun json_stringify :: "jsval \<Rightarrow> string" where
  "json_stringify JUndefined = ''null''"
| "json_stringify JNull = ''null''"
| "json_stringify (JBool b) = (if b then ''true'' else ''false'')"
| "json_stringify (JNum n) = show_int n"
| "json_stringify (JStr s) = json_quote s"
| "json_stringify (JArr xs) = ''['' @ join '','' (map json_stringify xs) @ '']''"
| "json_stringify (JObj kvs) =
     ''{'' @ join '',''
       (map (\<lambda>(k, v). json_quote k @ '':'' @ json_stringify v)
            (filter (\<lambda>(k, v). v \<noteq> JUndefined) kvs)) @ ''}''"

section \<open>The HTTP exchange\<close>

text \<open>
  A request as \<open>fetch\<close> receives it. The body is the text \<open>JSON.stringify(req)\<close>.
\<close>

record http_request =
  url :: string
  http_method :: string
  headers :: "(string \<times> string) list"
  body :: string

text \<open>
  A response: its status, and what \<open>resp.json()\<close> settles to (\<open>Inl\<close>: it rejects, the body
  is not JSON; \<open>Inr\<close>: the parsed value). \<open>resp.ok\<close> is true for the statuses 200 to 299.
\<close>

record http_response =
  status :: nat
  json :: "js_error + jsval"

definition ok :: "http_response \<Rightarrow> bool" where
  "ok resp = (200 \<le> status resp \<and> status resp \<le> 299)"

text \<open>
  The remote service and the network: what \<open>fetch\<close> settles to (\<open>Inl\<close>: it rejects), given
  all the requests issued so far, the current one last. The log of issued requests is the
  state the operations thread.
\<close>

type_synonym remote = "http_request list \<Rightarrow> js_error + http_response"

definition fetch ::
  "remote \<Rightarrow> http_request \<Rightarrow> http_request list
     \<Rightarrow> (js_error + http_response) \<times> http_request list" where
  "fetch rm req log = (rm (log @ [req]), log @ [req])"

section \<open>HeyBeautyClient (src/src/heybeauty.ts)\<close>

record client =
  apiBaseUrl :: string
  apiKey :: jsval

text \<open>The constructor: \<open>this.apiBaseUrl = apiBaseUrl || this.apiBaseUrl\<close>.\<close>

definition new_HeyBeautyClient :: "jsval \<Rightarrow> string option \<Rightarrow> client" where
  "new_HeyBeautyClient key base =
     \<lparr> apiBaseUrl = (case base of
                       Some b \<Rightarrow> if b \<noteq> [] then b else ''https://heybeauty.ai/api''
                     | None \<Rightarrow> ''https://heybeauty.ai/api''),
       apiKey = key \<rparr>"

definition authorization :: "client \<Rightarrow> string \<times> string" where
  "authorization c = (''Authorization'', ''Bearer '' @ to_string (apiKey c))"

text \<open>
  The three methods treat the response by the same lines (37 to 46, 91 to 98, 128 to 136):
  \<^verbatim>\<open>
  if (!resp.ok) { throw new Error("request failed with status " + resp.status); }
  const { code, message, data } = await resp.json();
  if (code !== 0) { throw new Error(message); }
  \<close>
  \<open>unwrap\<close> is these lines, yielding \<open>data\<close>; the text before the status is a parameter,
  since \<open>queryTask\<close> writes it with a colon. Destructuring \<open>null\<close> is a \<open>TypeError\<close>.
\<close>

definition unwrap :: "platform \<Rightarrow> string \<Rightarrow> http_response \<Rightarrow> js_error + jsval" where
  "unwrap pf failed resp =
     (if \<not> ok resp then Inl (Error (failed @ show_nat (status resp)))
      else case json resp of
             Inl e \<Rightarrow> Inl e
           | Inr v \<Rightarrow>
               if nullish v then Inl (TypeError (fault_message pf (ReadOfNullish ''code'')))
               else if get_prop v ''code'' \<noteq> JNum 0 then Inl (new_Error (get_prop v ''message''))
               else Inr (get_prop v ''data''))"

subsection \<open>getClothes\<close>

definition getClothes_request :: "client \<Rightarrow> http_request" where
  "getClothes_request c =
     \<lparr> url = apiBaseUrl c @ ''/get-clothes'',
       http_method = ''POST'',
       headers = [authorization c],
       body = json_stringify (JObj [(''page'', JNum 1), (''limit'', JNum 10)]) \<rparr>"

definition getClothes ::
  "platform \<Rightarrow> remote \<Rightarrow> client \<Rightarrow> http_request list
     \<Rightarrow> (js_error + jsval) \<times> http_request list" where
  "getClothes pf rm c log =
     (case fetch rm (getClothes_request c) log of
        (Inl e, log') \<Rightarrow> (Inl e, log')
      | (Inr resp, log') \<Rightarrow> (unwrap pf ''request failed with status '' resp, log'))"

subsection \<open>submitTask\<close>

text \<open>The argument object; an optional field that is not supplied is \<open>None\<close>.\<close>

record submit_args =
  user_img_url :: string
  cloth_img_url :: string
  cloth_id :: "string option"
  cloth_description :: "string option"

text \<open>\<open>if (s)\<close> for an optional string: supplied and not empty.\<close>

fun supplied :: "string option \<Rightarrow> bool" where
  "supplied None = False"
| "supplied (Some s) = (s \<noteq> [])"

text \<open>The object \<open>req\<close> of lines 68 to 79. (\<open>console.log(req)\<close> on line 81 writes it to the
  standard output and has no part in the result.)\<close>

definition submitTask_req :: "submit_args \<Rightarrow> (string \<times> jsval) list" where
  "submitTask_req a =
     [(''user_img_url'', JStr (user_img_url a)),
      (''cloth_img_url'', JStr (cloth_img_url a)),
      (''category'', JStr ''1''),
      (''is_sync'', JStr ''0'')]
     @ (if supplied (cloth_id a) then [(''cloth_id'', JStr (the (cloth_id a)))] else [])
     @ (if supplied (cloth_description a)
        then [(''caption'', JStr (the (cloth_description a)))] else [])"

definition submitTask_request :: "client \<Rightarrow> submit_args \<Rightarrow> http_request" where
  "submitTask_request c a =
     \<lparr> url = apiBaseUrl c @ ''/mcp-vton'',
       http_method = ''POST'',
       headers = [authorization c],
       body = json_stringify (JObj (submitTask_req a)) \<rparr>"

text \<open>The object literal both task methods return (lines 100 to 106 and 138 to 144).\<close>

definition tryon_task :: "jsval \<Rightarrow> jsval \<Rightarrow> jsval" where
  "tryon_task tid data =
     JObj [(''task_id'', tid),
           (''created_at'', get_prop data ''created_at''),
           (''updated_at'', get_prop data ''updated_at''),
           (''status'', get_prop data ''status''),
           (''tryon_img_url'', js_or (get_prop data ''tryon_img_url'') (JStr []))]"

text \<open>
  Evaluating the literal reads properties of \<open>data\<close>, which throws when \<open>data\<close> is \<open>null\<close>
  or \<open>undefined\<close>; \<open>first\<close> is the first property read, the one the engine reports.
\<close>

definition task_result :: "platform \<Rightarrow> string \<Rightarrow> jsval \<Rightarrow> jsval \<Rightarrow> js_error + jsval" where
  "task_result pf first tid data =
     (if nullish data then Inl (TypeError (fault_message pf (ReadOfNullish first)))
      else Inr (tryon_task tid data))"

definition submitTask ::
  "platform \<Rightarrow> remote \<Rightarrow> client \<Rightarrow> submit_args \<Rightarrow> http_request list
     \<Rightarrow> (js_error + jsval) \<times> http_request list" where
  "submitTask pf rm c a log =
     (if user_img_url a = [] \<or> cloth_img_url a = []
      then (Inl (Error ''user_img_url and cloth_img_url are required''), log)
      else case fetch rm (submitTask_request c a) log of
             (Inl e, log') \<Rightarrow> (Inl e, log')
           | (Inr resp, log') \<Rightarrow>
               (case unwrap pf ''request failed with status '' resp of
                  Inl e \<Rightarrow> (Inl e, log')
                | Inr data \<Rightarrow> (task_result pf ''uuid'' (get_prop data ''uuid'') data, log')))"

subsection \<open>queryTask\<close>

definition queryTask_request :: "client \<Rightarrow> string \<Rightarrow> http_request" where
  "queryTask_request c task_id =
     \<lparr> url = apiBaseUrl c @ ''/get-task-info'',
       http_method = ''POST'',
       headers = [(''Content-Type'', ''application/json''), authorization c],
       body = json_stringify (JObj [(''task_uuid'', JStr task_id)]) \<rparr>"

definition queryTask ::
  "platform \<Rightarrow> remote \<Rightarrow> client \<Rightarrow> string \<Rightarrow> http_request list
     \<Rightarrow> (js_error + jsval) \<times> http_request list" where
  "queryTask pf rm c task_id log =
     (case fetch rm (queryTask_request c task_id) log of
        (Inl e, log') \<Rightarrow> (Inl e, log')
      | (Inr resp, log') \<Rightarrow>
          (case unwrap pf ''request failed with status: '' resp of
             Inl e \<Rightarrow> (Inl e, log')
           | Inr data \<Rightarrow> (task_result pf ''created_at'' (JStr task_id) data, log')))"

section \<open>The URL of a cloth resource\<close>

text \<open>
  The read handler takes the cloth id from \<open>new URL(uri).pathname\<close>. What the URL standard
  computes is modelled for the inputs that begin, after the parser's trimming, with
  \<open>cloth:///\<close>: a scheme that is not special, an empty host, and a path that the parser's
  path state reads up to the first \<open>?\<close> or \<open>#\<close>. All other inputs are left to
  \<open>url_pathname_other\<close>, and so are the inputs that contain a circumflex, which the
  standard has put into the path percent-encode set only of late and runtimes of
  different age treat differently.
\<close>

definition c0_or_space :: "char \<Rightarrow> bool" where
  "c0_or_space c = ((of_char c :: nat) \<le> 0x20)"

definition tab_or_newline :: "char \<Rightarrow> bool" where
  "tab_or_newline c = (c = CHR 0x09 \<or> c = CHR 0x0A \<or> c = CHR 0x0D)"

text \<open>The parser first removes leading and trailing C0 controls and spaces, then every tab
  and newline.\<close>

definition url_trim :: "string \<Rightarrow> string" where
  "url_trim s =
     filter (\<lambda>c. \<not> tab_or_newline c)
            (rev (dropWhile c0_or_space (rev (dropWhile c0_or_space s))))"

definition path_percent_encode_set :: "char \<Rightarrow> bool" where
  "path_percent_encode_set c =
     ((of_char c :: nat) \<le> 0x20 \<or> (of_char c :: nat) > 0x7E
      \<or> c \<in> set [CHR 0x22, CHR 0x23, CHR 0x3C, CHR 0x3E, CHR 0x3F, CHR 0x5E, CHR 0x60,
                   CHR 0x7B, CHR 0x7D])"

definition upper_hex_digit :: "nat \<Rightarrow> char" where
  "upper_hex_digit d = ''0123456789ABCDEF'' ! d"

definition percent_encode :: "char \<Rightarrow> string" where
  "percent_encode c =
     (if path_percent_encode_set c
      then [CHR ''%'', upper_hex_digit (of_char c div 16), upper_hex_digit (of_char c mod 16)]
      else [c])"

definition single_dot :: "string \<Rightarrow> bool" where
  "single_dot buf = (buf \<in> set [''.'', ''%2e'', ''%2E''])"

definition double_dot :: "string \<Rightarrow> bool" where
  "double_dot buf =
     (buf \<in> set [''..'', ''.%2e'', ''.%2E'', ''%2e.'', ''%2E.'',
                  ''%2e%2e'', ''%2e%2E'', ''%2E%2e'', ''%2E%2E''])"

text \<open>
  The end of a path segment: a double-dot segment removes the last segment of the path, a
  single-dot segment adds none, and either adds an empty segment unless a slash follows.
\<close>

definition close_segment :: "string list \<Rightarrow> string \<Rightarrow> bool \<Rightarrow> string list" where
  "close_segment path buf slash =
     (if double_dot buf then (if slash then butlast path else butlast path @ [[]])
      else if single_dot buf then (if slash then path else path @ [[]])
      else path @ [buf])"

fun path_state :: "string list \<Rightarrow> string \<Rightarrow> string \<Rightarrow> string list" where
  "path_state path buf [] = close_segment path buf False"
| "path_state path buf (c # cs) =
     (if c = CHR ''/'' then path_state (close_segment path buf True) [] cs
      else if c = CHR ''?'' \<or> c = CHR ''#'' then close_segment path buf False
      else path_state path (buf @ percent_encode c) cs)"

definition url_pathname :: "platform \<Rightarrow> string \<Rightarrow> js_error + string" where
  "url_pathname pf s =
     (if take 9 (url_trim s) = ''cloth:///'' \<and> CHR 0x5E \<notin> set (url_trim s)
      then Inr (concat (map (\<lambda>seg. CHR ''/'' # seg) (path_state [] [] (drop 9 (url_trim s)))))
      else url_pathname_other pf s)"

text \<open>\<open>s.replace(/^\//, "")\<close>\<close>

fun strip_slash :: "string \<Rightarrow> string" where
  "strip_slash [] = []"
| "strip_slash (c # cs) = (if c = CHR ''/'' then cs else c # cs)"

section \<open>The request handlers (src/unnamed/part_000)\<close>

text \<open>
  \<open>getAuthValue\<close> and \<open>getParamValue\<close> belong to an SDK outside the repository. A handler
  is given what they return: \<open>auth\<close> is the value of \<open>getAuthValue(request, "HEYBEAUTY_API_KEY")\<close>
  for the request at hand, and \<open>heybeautyApiKey\<close> below is applied to the value of
  \<open>getParamValue("HEYBEAUTY_API_KEY")\<close>.
\<close>

definition heybeautyApiKey :: "jsval \<Rightarrow> jsval" where
  "heybeautyApiKey param = js_or param (JStr [])"

text \<open>Lines 59 to 63, 87 to 91 and 179 to 183.\<close>

definition resolve_api_key :: "jsval \<Rightarrow> jsval \<Rightarrow> js_error + jsval" where
  "resolve_api_key auth dflt =
     (if \<not> truthy (js_or auth dflt) then Inl (Error ''HEYBEAUTY_API_KEY is not set'')
      else Inr (js_or auth dflt))"

text \<open>\<open>catch (error) { throw new Error(prefix + error.message) }\<close>\<close>

definition rethrow :: "string \<Rightarrow> (js_error + 'a) \<Rightarrow> (js_error + 'a)" where
  "rethrow prefix r = (case r of Inl e \<Rightarrow> Inl (Error (prefix @ message e)) | Inr v \<Rightarrow> Inr v)"

record resource =
  uri :: string
  mimeType :: string
  name :: jsval
  description :: string

record resource_contents =
  contents_uri :: string
  contents_mimeType :: string
  contents_text :: jsval

record tool_property =
  property_name :: string
  property_type :: string
  property_description :: string

record tool =
  tool_name :: string
  tool_description :: string
  properties :: "tool_property list"
  required :: "string list"

record prompt =
  prompt_name :: string
  prompt_description :: string

record prompt_message =
  role :: string
  content_type :: string
  content_text :: string

datatype mcp_result =
    Resources "resource list"
  | Contents "resource_contents list"
  | Tools "tool list"
  | ToolContent "(string \<times> string) list"   \<comment> \<open>\<open>content\<close>: pairs of \<open>type\<close> and \<open>text\<close>\<close>
  | Prompts "prompt list"
  | PromptMessages "prompt_message list"

subsection \<open>List resources\<close>

definition resource_of :: "platform \<Rightarrow> jsval \<Rightarrow> js_error + resource" where
  "resource_of pf clothe =
     (case read_prop pf clothe ''cloth_id'' of
        Inl e \<Rightarrow> Inl e
      | Inr cid \<Rightarrow>
          Inr \<lparr> uri = ''cloth:///'' @ to_string cid,
                mimeType = ''text/plain'',
                name = get_prop clothe ''title'',
                description = to_string (get_prop clothe ''description'') \<rparr>)"

text \<open>\<open>xs.map(f)\<close> where \<open>f\<close> may throw: the first throw ends the map.\<close>

fun map_throwing :: "('a \<Rightarrow> js_error + 'b) \<Rightarrow> 'a list \<Rightarrow> js_error + 'b list" where
  "map_throwing f [] = Inr []"
| "map_throwing f (x # xs) =
     (case f x of
        Inl e \<Rightarrow> Inl e
      | Inr y \<Rightarrow> (case map_throwing f xs of Inl e \<Rightarrow> Inl e | Inr ys \<Rightarrow> Inr (y # ys)))"

text \<open>The receiver of \<open>clothes.map\<close> and \<open>clothes.find\<close>: only an array has the method.\<close>

fun array_of :: "platform \<Rightarrow> string \<Rightarrow> jsval \<Rightarrow> js_error + jsval list" where
  "array_of pf m (JArr xs) = Inr xs"
| "array_of pf m v =
     (if nullish v then Inl (TypeError (fault_message pf (ReadOfNullish m)))
      else Inl (TypeError (fault_message pf (NotAFunction m))))"

definition list_resources ::
  "platform \<Rightarrow> remote \<Rightarrow> jsval \<Rightarrow> jsval \<Rightarrow> http_request list
     \<Rightarrow> (js_error + mcp_result) \<times> http_request list" where
  "list_resources pf rm dflt auth log =
     (case resolve_api_key auth dflt of
        Inl e \<Rightarrow> (rethrow ''get resources failed: '' (Inl e), log)
      | Inr key \<Rightarrow>
          (case getClothes pf rm (new_HeyBeautyClient key None) log of
             (Inl e, log') \<Rightarrow> (rethrow ''get resources failed: '' (Inl e), log')
           | (Inr clothes, log') \<Rightarrow>
               (rethrow ''get resources failed: ''
                  (case array_of pf ''map'' clothes of
                     Inl e \<Rightarrow> Inl e
                   | Inr xs \<Rightarrow>
                       (case map_throwing (resource_of pf) xs of
                          Inl e \<Rightarrow> Inl e
                        | Inr rs \<Rightarrow> Inr (Resources rs))),
                log')))"

subsection \<open>Read resource\<close>

text \<open>\<open>clothes.find((clothe) => clothe.cloth_id == id)\<close>; \<open>undefined\<close> when no element
  matches.\<close>

fun find_cloth :: "platform \<Rightarrow> string \<Rightarrow> jsval list \<Rightarrow> js_error + jsval" where
  "find_cloth pf ident [] = Inr JUndefined"
| "find_cloth pf ident (clothe # rest) =
     (case read_prop pf clothe ''cloth_id'' of
        Inl e \<Rightarrow> Inl e
      | Inr cid \<Rightarrow> if loose_eq_string pf cid ident then Inr clothe else find_cloth pf ident rest)"

definition read_cloth ::
  "platform \<Rightarrow> string \<Rightarrow> string \<Rightarrow> jsval \<Rightarrow> js_error + mcp_result" where
  "read_cloth pf request_uri ident clothes =
     (case array_of pf ''find'' clothes of
        Inl e \<Rightarrow> Inl e
      | Inr xs \<Rightarrow>
          (case find_cloth pf ident xs of
             Inl e \<Rightarrow> Inl e
           | Inr cloth \<Rightarrow>
               if \<not> truthy cloth then Inl (Error (''Cloth '' @ ident @ '' not found''))
               else Inr (Contents
                      [\<lparr> contents_uri = request_uri,
                         contents_mimeType = ''text/plain'',
                         contents_text = get_prop cloth ''cloth_img_url'' \<rparr>])))"

definition read_resource ::
  "platform \<Rightarrow> remote \<Rightarrow> jsval \<Rightarrow> jsval \<Rightarrow> string \<Rightarrow> http_request list
     \<Rightarrow> (js_error + mcp_result) \<times> http_request list" where
  "read_resource pf rm dflt auth request_uri log =
     (case resolve_api_key auth dflt of
        Inl e \<Rightarrow> (rethrow ''read resource failed: '' (Inl e), log)
      | Inr key \<Rightarrow>
          (case url_pathname pf request_uri of
             Inl e \<Rightarrow> (rethrow ''read resource failed: '' (Inl e), log)
           | Inr pathname \<Rightarrow>
               (case getClothes pf rm (new_HeyBeautyClient key None) log of
                  (Inl e, log') \<Rightarrow> (rethrow ''read resource failed: '' (Inl e), log')
                | (Inr clothes, log') \<Rightarrow>
                    (rethrow ''read resource failed: ''
                       (read_cloth pf request_uri (strip_slash pathname) clothes),
                     log'))))"

subsection \<open>List tools\<close>

definition list_tools :: "js_error + mcp_result" where
  "list_tools =
     Inr (Tools
       [\<lparr> tool_name = ''submit_tryon_task'',
          tool_description = ''Submit a tryon task with user image url and cloth image url'',
          properties =
            [\<lparr> property_name = ''user_img_url'', property_type = ''string'',
               property_description = ''User image url, should be a url of a picture'' \<rparr>,
             \<lparr> property_name = ''cloth_img_url'', property_type = ''string'',
               property_description =
                 ''Cloth image url, should be a url of a picture, user input or get from the selected cloth resource'' \<rparr>,
             \<lparr> property_name = ''cloth_id'', property_type = ''string'',
               property_description = ''Cloth id, get from the selected cloth resource'' \<rparr>,
             \<lparr> property_name = ''cloth_description'', property_type = ''string'',
               property_description =
                 ''Cloth description, user input or get from the selected cloth resource'' \<rparr>],
          required = [''user_img_url'', ''cloth_img_url''] \<rparr>,
        \<lparr> tool_name = ''query_tryon_task'',
          tool_description = ''Query a tryon task with task id'',
          properties =
            [\<lparr> property_name = ''task_id'', property_type = ''string'',
               property_description = ''Task id, get from the submit_tryon_task tool'' \<rparr>],
          required = [''task_id''] \<rparr>])"

subsection \<open>Call tool\<close>

definition text_content :: "jsval \<Rightarrow> mcp_result" where
  "text_content res = ToolContent [(''text'', json_stringify res)]"

definition submit_tryon_task ::
  "platform \<Rightarrow> remote \<Rightarrow> client \<Rightarrow> jsval \<Rightarrow> http_request list
     \<Rightarrow> (js_error + mcp_result) \<times> http_request list" where
  "submit_tryon_task pf rm c arguments log =
     (let user = to_string (js_or (opt_prop arguments ''user_img_url'') (JStr []));
          cloth = to_string (js_or (opt_prop arguments ''cloth_img_url'') (JStr []));
          cid = to_string (js_or (opt_prop arguments ''cloth_id'') (JStr []));
          descr = to_string (js_or (opt_prop arguments ''cloth_description'') (JStr []))
      in if user = [] then (Inl (Error ''user image is required''), log)
         else if cloth = [] then (Inl (Error ''cloth image is required''), log)
         else case submitTask pf rm c
                     \<lparr> user_img_url = user, cloth_img_url = cloth,
                       cloth_id = Some cid, cloth_description = Some descr \<rparr> log of
                (Inl e, log') \<Rightarrow> (Inl e, log')
              | (Inr res, log') \<Rightarrow> (Inr (text_content res), log'))"

definition query_tryon_task ::
  "platform \<Rightarrow> remote \<Rightarrow> client \<Rightarrow> jsval \<Rightarrow> http_request list
     \<Rightarrow> (js_error + mcp_result) \<times> http_request list" where
  "query_tryon_task pf rm c arguments log =
     (let task_id = to_string (opt_prop arguments ''task_id'')
      in if task_id = [] then (Inl (Error ''task id is required''), log)
         else case queryTask pf rm c task_id log of
                (Inl e, log') \<Rightarrow> (Inl e, log')
              | (Inr res, log') \<Rightarrow> (Inr (text_content res), log'))"

definition call_tool ::
  "platform \<Rightarrow> remote \<Rightarrow> jsval \<Rightarrow> jsval \<Rightarrow> string \<Rightarrow> jsval \<Rightarrow> http_request list
     \<Rightarrow> (js_error + mcp_result) \<times> http_request list" where
  "call_tool pf rm dflt auth tool_nm arguments log =
     (case resolve_api_key auth dflt of
        Inl e \<Rightarrow> (rethrow ''call tool failed: '' (Inl e), log)
      | Inr key \<Rightarrow>
          (case (if tool_nm = ''submit_tryon_task''
                   then submit_tryon_task pf rm (new_HeyBeautyClient key None) arguments log
                 else if tool_nm = ''query_tryon_task''
                   then query_tryon_task pf rm (new_HeyBeautyClient key None) arguments log
                 else (Inl (Error ''Unknown tool''), log)) of
             (r, log') \<Rightarrow> (rethrow ''call tool failed: '' r, log')))"

subsection \<open>Prompts\<close>

definition list_prompts :: "js_error + mcp_result" where
  "list_prompts =
     Inr (Prompts [\<lparr> prompt_name = ''tryon_cloth'',
                     prompt_description = ''Tryon with user image and cloth image'' \<rparr>])"

definition tryon_prompt_lines :: "string list" where
  "tryon_prompt_lines =
     [''You are a helpful assistant that helps users try on clothes virtually. When a user provides their photo URL and either:'',
      ''1. A clothing image URL they want to try on, or'',
      ''2. Selects a clothing item from the available resources'',
      [],
      ''Here'' @ [CHR 0x27] @ ''s how to handle each case:'',
      [],
      ''1. If the user provides their own clothing image URL:'',
      ''   - Use the submit_tryon_task tool with:'',
      ''     - user_img_url: The URL of the user'' @ [CHR 0x27] @ ''s photo'',
      ''     - cloth_img_url: The URL of the clothing image provided by the user'',
      ''   - cloth_id and cloth_description can be left empty'',
      [],
      ''2. If the user selects a clothing item from resources:'',
      ''   - Use the submit_tryon_task tool with:'',
      ''     - user_img_url: The URL of the user'' @ [CHR 0x27] @ ''s photo'',
      ''     - cloth_img_url: The URL from the selected cloth resource'',
      ''     - cloth_id: The ID from the selected cloth resource'',
      ''     - cloth_description: The description from the selected cloth resource'',
      [],
      ''After submitting the task:'',
      ''- Get the task_id from the response'',
      ''- Use the query_tryon_task tool every 5 seconds to check the task status'',
      ''- Continue checking until the task status is either '' @ [CHR 0x22] @ ''succeeded'' @ [CHR 0x22] @ '' or '' @ [CHR 0x22] @ ''failed'' @ [CHR 0x22],
      ''- If successful, display the tryon_img_url in markdown format: ![Try-on Result](tryon_img_url)'',
      ''- If failed, inform the user about the failure'',
      [],
      ''Throughout the process:'',
      ''- Keep the user informed about the current status'',
      ''- Be patient and friendly'',
      ''- Handle any errors gracefully'',
      [],
      ''Here is the user'' @ [CHR 0x27] @ ''s photo URL and either their clothing image URL or the selected clothing item:'']"

definition get_prompt :: "string \<Rightarrow> js_error + mcp_result" where
  "get_prompt prompt_nm =
     (if prompt_nm \<noteq> ''tryon_cloth'' then Inl (Error ''Unknown prompt'')
      else Inr (PromptMessages
             [\<lparr> role = ''user'', content_type = ''text'',
                content_text = join [CHR 0x0A] tryon_prompt_lines \<rparr>]))"

subsection \<open>The registered handlers\<close>

text \<open>
  \<open>server.setRequestHandler\<close> registers one handler for each request schema; the server
  calls the handler of the request's schema. The handlers of list tools, list prompts and
  get prompt read neither the request's auth value nor the process-wide key, and issue no
  HTTP request.
\<close>

datatype mcp_request =
    ListResources
  | ReadResource string
  | ListTools
  | CallTool string jsval
  | ListPrompts
  | GetPrompt string

fun handle ::
  "platform \<Rightarrow> remote \<Rightarrow> jsval \<Rightarrow> jsval \<Rightarrow> mcp_request \<Rightarrow> http_request list
     \<Rightarrow> (js_error + mcp_result) \<times> http_request list" where
  "handle pf rm dflt auth ListResources log = list_resources pf rm dflt auth log"
| "handle pf rm dflt auth (ReadResource u) log = read_resource pf rm dflt auth u log"
| "handle pf rm dflt auth ListTools log = (list_tools, log)"
| "handle pf rm dflt auth (CallTool n args) log = call_tool pf rm dflt auth n args log"
| "handle pf rm dflt auth ListPrompts log = (list_prompts, log)"
| "handle pf rm dflt auth (GetPrompt n) log = (get_prompt n, log)"

section \<open>Vocabulary of the properties\<close>

text \<open>The handlers whose body begins by resolving the API key.\<close>

fun resolves_api_key :: "mcp_request \<Rightarrow> bool" where
  "resolves_api_key ListResources = True"
| "resolves_api_key (ReadResource u) = True"
| "resolves_api_key (CallTool n args) = True"
| "resolves_api_key ListTools = False"
| "resolves_api_key ListPrompts = False"
| "resolves_api_key (GetPrompt n) = False"

text \<open>The handlers whose body is a \<open>try\<close> block with a \<open>catch\<close> clause, and the text the
  clause puts before the message.\<close>

fun catches_errors :: "mcp_request \<Rightarrow> bool" where
  "catches_errors ListResources = True"
| "catches_errors (ReadResource u) = True"
| "catches_errors (CallTool n args) = True"
| "catches_errors ListTools = False"
| "catches_errors ListPrompts = False"
| "catches_errors (GetPrompt n) = False"

fun catch_prefix :: "mcp_request \<Rightarrow> string" where
  "catch_prefix ListResources = ''get resources failed: ''"
| "catch_prefix (ReadResource u) = ''read resource failed: ''"
| "catch_prefix (CallTool n args) = ''call tool failed: ''"
| "catch_prefix ListTools = []"
| "catch_prefix ListPrompts = []"
| "catch_prefix (GetPrompt n) = []"

text \<open>
  A cloth id that the URL parser leaves as it is: no character of the path
  percent-encode set (which holds the controls, the space, \<open>?\<close> and \<open>#\<close>), and no segment
  between slashes that is a single-dot or double-dot segment. \<open>no_dot_segments buf s\<close>
  reads \<open>s\<close> with \<open>buf\<close> the segment begun so far.
\<close>

fun no_dot_segments :: "string \<Rightarrow> string \<Rightarrow> bool" where
  "no_dot_segments buf [] = (\<not> single_dot buf \<and> \<not> double_dot buf)"
| "no_dot_segments buf (c # cs) =
     (if c = CHR ''/'' then \<not> single_dot buf \<and> \<not> double_dot buf \<and> no_dot_segments [] cs
      else no_dot_segments (buf @ [c]) cs)"

definition path_safe :: "string \<Rightarrow> bool" where
  "path_safe s = (list_all (\<lambda>c. \<not> path_percent_encode_set c) s \<and> no_dot_segments [] s)"

text \<open>
  From the log \<open>log\<close> to the log \<open>log'\<close>, nothing was sent, or one request whose
  \<open>Authorization\<close> header is the bearer token \<open>key\<close>.
\<close>

definition sent_with :: "jsval \<Rightarrow> http_request list \<Rightarrow> http_request list \<Rightarrow> bool" where
  "sent_with key log log' =
     (log' = log \<or>
      (\<exists>r. log' = log @ [r] \<and>
           map_of (headers r) ''Authorization'' = Some (''Bearer '' @ to_string key)))"

section \<open>Example inputs\<close>

definition example_platform :: platform where
  "example_platform =
     \<lparr> fault_message = (\<lambda>f. case f of
           ReadOfNullish k \<Rightarrow> ''Cannot read properties of null (reading '' @ k @ '')''
         | NotAFunction m \<Rightarrow> m @ '' is not a function''),
       string_to_number = (\<lambda>s. None),
       url_pathname_other = (\<lambda>s. Inl (TypeError ''Invalid URL'')) \<rparr>"

definition example_client :: client where
  "example_client = new_HeyBeautyClient (JStr ''secret'') None"

definition answering :: "nat \<Rightarrow> jsval \<Rightarrow> remote" where
  "answering n env = (\<lambda>log. Inr \<lparr> status = n, json = Inr env \<rparr>)"

definition envelope :: "int \<Rightarrow> string \<Rightarrow> jsval \<Rightarrow> jsval" where
  "envelope code msg data = JObj [(''code'', JNum code), (''message'', JStr msg), (''data'', data)]"

definition example_args :: submit_args where
  "example_args = \<lparr> user_img_url = ''https://x/u.jpg'', cloth_img_url = ''https://x/c.jpg'',
                     cloth_id = None, cloth_description = None \<rparr>"

definition example_args_full :: submit_args where
  "example_args_full = \<lparr> user_img_url = ''https://x/u.jpg'', cloth_img_url = ''https://x/c.jpg'',
                     cloth_id = Some ''c42'', cloth_description = Some ''red coat'' \<rparr>"

definition example_task_data :: jsval where
  "example_task_data =
     JObj [(''uuid'', JStr ''abc123''), (''created_at'', JNum 1700000000),
           (''updated_at'', JNum 1700000005), (''status'', JStr ''pending''),
           (''tryon_img_url'', JNull)]"

definition example_clothes :: "jsval list" where
  "example_clothes =
     [JObj [(''cloth_id'', JStr ''c-1''), (''title'', JStr ''Coat''),
            (''description'', JStr ''red coat''), (''cloth_img_url'', JStr ''https://x/c1.jpg'')],
      JObj [(''cloth_id'', JStr ''c-2''), (''title'', JStr ''Hat''),
            (''description'', JStr ''straw hat''), (''cloth_img_url'', JStr ''https://x/c2.jpg'')]]"

definition spaced_clothes :: "jsval list" where
  "spaced_clothes =
     [JObj [(''cloth_id'', JStr ''a b''), (''title'', JStr ''Coat''),
            (''description'', JStr ''red coat''), (''cloth_img_url'', JStr ''https://x/c1.jpg'')]]"

section \<open>Properties of the client\<close>

subsection \<open>What each method logs and returns\<close>

lemma snd_getClothes: "snd (getClothes pf rm c log) = log @ [getClothes_request c]"
  by (simp add: getClothes_def fetch_def split: sum.splits)

lemma snd_queryTask: "snd (queryTask pf rm c t log) = log @ [queryTask_request c t]"
  by (simp add: queryTask_def fetch_def split: sum.splits)

lemma snd_submitTask:
  "snd (submitTask pf rm c a log) =
     (if user_img_url a = [] \<or> cloth_img_url a = [] then log else log @ [submitTask_request c a])"
  by (simp add: submitTask_def fetch_def split: sum.splits)

lemma unwrap_not_ok:
  "\<not> ok resp \<Longrightarrow> unwrap pf t resp = Inl (Error (t @ show_nat (status resp)))"
  by (simp add: unwrap_def)

lemma unwrap_ok:
  "ok resp \<Longrightarrow> json resp = Inr env \<Longrightarrow> \<not> nullish env \<Longrightarrow>
     unwrap pf t resp =
       (if get_prop env ''code'' \<noteq> JNum 0 then Inl (new_Error (get_prop env ''message''))
        else Inr (get_prop env ''data''))"
  by (simp add: unwrap_def)

lemma fst_getClothes:
  "rm (log @ [getClothes_request c]) = Inr resp \<Longrightarrow>
     fst (getClothes pf rm c log) = unwrap pf ''request failed with status '' resp"
  by (simp add: getClothes_def fetch_def)

lemma fst_submitTask:
  "user_img_url a \<noteq> [] \<Longrightarrow> cloth_img_url a \<noteq> [] \<Longrightarrow>
   rm (log @ [submitTask_request c a]) = Inr resp \<Longrightarrow>
     fst (submitTask pf rm c a log) =
       (case unwrap pf ''request failed with status '' resp of
          Inl e \<Rightarrow> Inl e
        | Inr data \<Rightarrow> task_result pf ''uuid'' (get_prop data ''uuid'') data)"
  by (simp add: submitTask_def fetch_def split: sum.splits)

lemma fst_queryTask:
  "rm (log @ [queryTask_request c t]) = Inr resp \<Longrightarrow>
     fst (queryTask pf rm c t log) =
       (case unwrap pf ''request failed with status: '' resp of
          Inl e \<Rightarrow> Inl e
        | Inr data \<Rightarrow> task_result pf ''created_at'' (JStr t) data)"
  by (simp add: queryTask_def fetch_def split: sum.splits)

text \<open>
  Claim C3. When \<open>user_img_url\<close> or \<open>cloth_img_url\<close> is the empty string, \<open>submitTask\<close>
  fails with the validation error, whatever the optional fields \<open>cloth_id\<close> and
  \<open>cloth_description\<close> are, and the log of issued requests is unchanged: no HTTP request
  has been issued.
\<close>

theorem submitTask_requires_image_urls:
  "user_img_url a = [] \<or> cloth_img_url a = [] \<Longrightarrow>
     submitTask pf rm c a log = (Inl (Error ''user_img_url and cloth_img_url are required''), log)"
  by (simp add: submitTask_def)

theorem submitTask_requires_image_urls_witness:
  "submitTask example_platform (answering 200 (envelope 0 ''ok'' JNull)) example_client
     \<lparr> user_img_url = ''https://x/u.jpg'', cloth_img_url = [],
       cloth_id = Some ''c1'', cloth_description = None \<rparr> []
   = (Inl (Error ''user_img_url and cloth_img_url are required''), [])"
  using submitTask_requires_image_urls
    [of "\<lparr> user_img_url = ''https://x/u.jpg'', cloth_img_url = [],
          cloth_id = Some ''c1'', cloth_description = None \<rparr>"
        example_platform "answering 200 (envelope 0 ''ok'' JNull)" example_client "[]"]
  by simp

text \<open>
  Claim C2. For each of \<open>getClothes\<close>, \<open>submitTask\<close> (past its validation) and
  \<open>queryTask\<close>: when the response to the request has a status \<open>n\<close> outside 200 to 299, the
  operation fails with an error whose message ends with the decimal status. The outcome
  is the same for every \<open>j\<close>, the result of parsing the body: the body is not looked at.
\<close>

theorem non_2xx_status_fails:
  "n < 200 \<or> 299 < n \<Longrightarrow>
     (rm (log @ [getClothes_request c]) = Inr \<lparr> status = n, json = j \<rparr> \<longrightarrow>
        fst (getClothes pf rm c log) = Inl (Error (''request failed with status '' @ show_nat n)))
   \<and> (user_img_url a \<noteq> [] \<and> cloth_img_url a \<noteq> [] \<and>
      rm (log @ [submitTask_request c a]) = Inr \<lparr> status = n, json = j \<rparr> \<longrightarrow>
        fst (submitTask pf rm c a log) = Inl (Error (''request failed with status '' @ show_nat n)))
   \<and> (rm (log @ [queryTask_request c t]) = Inr \<lparr> status = n, json = j \<rparr> \<longrightarrow>
        fst (queryTask pf rm c t log) = Inl (Error (''request failed with status: '' @ show_nat n)))"
  by (auto simp: fst_getClothes fst_submitTask fst_queryTask unwrap_not_ok ok_def)

theorem non_2xx_status_fails_witness:
  "fst (getClothes example_platform (answering 404 JNull) example_client [])
     = Inl (Error ''request failed with status 404'')
   \<and> fst (submitTask example_platform (answering 404 JNull) example_client example_args [])
     = Inl (Error ''request failed with status 404'')
   \<and> fst (queryTask example_platform (answering 404 JNull) example_client ''t1'' [])
     = Inl (Error ''request failed with status: 404'')"
  using non_2xx_status_fails
    [of 404 "answering 404 JNull" "[]" example_client "Inr JNull" example_platform
        example_args "''t1''"]
  by (simp add: answering_def example_args_def show_nat.simps digit_char_def)

text \<open>
  Claim C1. The response has a status from 200 to 299 and its body parses to the envelope
  \<open>env\<close>. If the envelope's \<open>code\<close> is not the number 0 and its \<open>message\<close> is the string
  \<open>m\<close>, each of the three operations fails with the error whose message is exactly \<open>m\<close>. If
  \<open>code\<close> is 0, \<open>getClothes\<close> returns the envelope's \<open>data\<close>, and \<open>submitTask\<close> and
  \<open>queryTask\<close> return the task object built from \<open>data\<close>, a task record (not \<open>null\<close>, not
  missing).
\<close>

theorem envelope_code_decides:
  assumes "200 \<le> n" and "n \<le> 299" and "\<not> nullish env"
    and "resp = \<lparr> status = n, json = Inr env \<rparr>"
    and "data = get_prop env ''data''"
  shows
  "(get_prop env ''code'' \<noteq> JNum 0 \<and> get_prop env ''message'' = JStr m \<longrightarrow>
      (rm (log @ [getClothes_request c]) = Inr resp \<longrightarrow>
         fst (getClothes pf rm c log) = Inl (Error m))
    \<and> (user_img_url a \<noteq> [] \<and> cloth_img_url a \<noteq> [] \<and>
       rm (log @ [submitTask_request c a]) = Inr resp \<longrightarrow>
         fst (submitTask pf rm c a log) = Inl (Error m))
    \<and> (rm (log @ [queryTask_request c t]) = Inr resp \<longrightarrow>
         fst (queryTask pf rm c t log) = Inl (Error m)))
   \<and> (get_prop env ''code'' = JNum 0 \<longrightarrow>
      (rm (log @ [getClothes_request c]) = Inr resp \<longrightarrow>
         fst (getClothes pf rm c log) = Inr data)
    \<and> (user_img_url a \<noteq> [] \<and> cloth_img_url a \<noteq> [] \<and> \<not> nullish data \<and>
       rm (log @ [submitTask_request c a]) = Inr resp \<longrightarrow>
         fst (submitTask pf rm c a log) = Inr (tryon_task (get_prop data ''uuid'') data))
    \<and> (\<not> nullish data \<and> rm (log @ [queryTask_request c t]) = Inr resp \<longrightarrow>
         fst (queryTask pf rm c t log) = Inr (tryon_task (JStr t) data)))"
proof -
  have okr: "ok resp" using assms by (simp add: ok_def)
  have js: "json resp = Inr env" using assms by simp
  note u = unwrap_ok [OF okr js assms(3)]
  show ?thesis
    using assms(5)
    by (auto simp: fst_getClothes fst_submitTask fst_queryTask u new_Error_def task_result_def)
qed

theorem envelope_code_decides_witness:
  "fst (getClothes example_platform (answering 200 (envelope 7 ''quota exceeded'' JNull))
          example_client []) = Inl (Error ''quota exceeded'')
   \<and> fst (submitTask example_platform (answering 200 (envelope 7 ''quota exceeded'' JNull))
          example_client example_args []) = Inl (Error ''quota exceeded'')
   \<and> fst (queryTask example_platform (answering 200 (envelope 7 ''quota exceeded'' JNull))
          example_client ''t1'' []) = Inl (Error ''quota exceeded'')
   \<and> fst (getClothes example_platform
          (answering 200 (envelope 0 ''ok'' (JObj [(''uuid'', JStr ''abc123'')])))
          example_client []) = Inr (JObj [(''uuid'', JStr ''abc123'')])
   \<and> fst (submitTask example_platform
          (answering 200 (envelope 0 ''ok'' (JObj [(''uuid'', JStr ''abc123'')])))
          example_client example_args [])
       = Inr (tryon_task (JStr ''abc123'') (JObj [(''uuid'', JStr ''abc123'')]))
   \<and> fst (queryTask example_platform
          (answering 200 (envelope 0 ''ok'' (JObj [(''uuid'', JStr ''abc123'')])))
          example_client ''t1'' [])
       = Inr (tryon_task (JStr ''t1'') (JObj [(''uuid'', JStr ''abc123'')]))"
  using
    envelope_code_decides
      [of 200 "envelope 7 ''quota exceeded'' JNull"
          "\<lparr> status = 200, json = Inr (envelope 7 ''quota exceeded'' JNull) \<rparr>" JNull
          "''quota exceeded''" "answering 200 (envelope 7 ''quota exceeded'' JNull)" "[]"
          example_client example_platform example_args "''t1''"]
    envelope_code_decides
      [of 200 "envelope 0 ''ok'' (JObj [(''uuid'', JStr ''abc123'')])"
          "\<lparr> status = 200, json = Inr (envelope 0 ''ok'' (JObj [(''uuid'', JStr ''abc123'')])) \<rparr>"
          "JObj [(''uuid'', JStr ''abc123'')]"
          "''ok''" "answering 200 (envelope 0 ''ok'' (JObj [(''uuid'', JStr ''abc123'')]))" "[]"
          example_client example_platform example_args "''t1''"]
  by (simp add: answering_def envelope_def example_args_def)

text \<open>
  Claim C4. A \<open>submitTask\<close> call that passes validation issues one request, whose body is
  the JSON text of the object \<open>req\<close>. The keys of \<open>req\<close> are \<open>user_img_url\<close>,
  \<open>cloth_img_url\<close>, \<open>category\<close>, \<open>is_sync\<close>, then \<open>cloth_id\<close> exactly when a \<open>cloth_id\<close> that
  is not empty was supplied, then \<open>caption\<close> exactly when a \<open>cloth_description\<close> that is not
  empty was supplied; \<open>category\<close> is \<open>"1"\<close>, \<open>is_sync\<close> is \<open>"0"\<close>, and the other values are
  the arguments unchanged.
\<close>

theorem submitTask_request_body:
  assumes "user_img_url a \<noteq> []" and "cloth_img_url a \<noteq> []"
  shows
  "snd (submitTask pf rm c a log) = log @ [submitTask_request c a]
   \<and> body (submitTask_request c a) = json_stringify (JObj (submitTask_req a))
   \<and> keys (JObj (submitTask_req a)) =
        [''user_img_url'', ''cloth_img_url'', ''category'', ''is_sync'']
        @ (if cloth_id a = None \<or> cloth_id a = Some [] then [] else [''cloth_id''])
        @ (if cloth_description a = None \<or> cloth_description a = Some [] then []
           else [''caption''])
   \<and> get_prop (JObj (submitTask_req a)) ''user_img_url'' = JStr (user_img_url a)
   \<and> get_prop (JObj (submitTask_req a)) ''cloth_img_url'' = JStr (cloth_img_url a)
   \<and> get_prop (JObj (submitTask_req a)) ''category'' = JStr ''1''
   \<and> get_prop (JObj (submitTask_req a)) ''is_sync'' = JStr ''0''
   \<and> (\<forall>s. cloth_id a = Some s \<and> s \<noteq> [] \<longrightarrow>
         get_prop (JObj (submitTask_req a)) ''cloth_id'' = JStr s)
   \<and> (\<forall>s. cloth_description a = Some s \<and> s \<noteq> [] \<longrightarrow>
         get_prop (JObj (submitTask_req a)) ''caption'' = JStr s)"
proof -
  have "snd (submitTask pf rm c a log) = log @ [submitTask_request c a]"
    using assms by (simp add: snd_submitTask)
  moreover have "body (submitTask_request c a) = json_stringify (JObj (submitTask_req a))"
    by (simp add: submitTask_request_def)
  moreover have "keys (JObj (submitTask_req a)) =
        [''user_img_url'', ''cloth_img_url'', ''category'', ''is_sync'']
        @ (if cloth_id a = None \<or> cloth_id a = Some [] then [] else [''cloth_id''])
        @ (if cloth_description a = None \<or> cloth_description a = Some [] then []
           else [''caption''])"
    by (cases "cloth_id a"; cases "cloth_description a") (simp_all add: submitTask_req_def)
  moreover have "get_prop (JObj (submitTask_req a)) ''user_img_url'' = JStr (user_img_url a)"
    "get_prop (JObj (submitTask_req a)) ''cloth_img_url'' = JStr (cloth_img_url a)"
    "get_prop (JObj (submitTask_req a)) ''category'' = JStr ''1''"
    "get_prop (JObj (submitTask_req a)) ''is_sync'' = JStr ''0''"
    by (simp_all add: submitTask_req_def)
  moreover have "\<forall>s. cloth_id a = Some s \<and> s \<noteq> [] \<longrightarrow>
         get_prop (JObj (submitTask_req a)) ''cloth_id'' = JStr s"
    by (simp add: submitTask_req_def)
  moreover have "\<forall>s. cloth_description a = Some s \<and> s \<noteq> [] \<longrightarrow>
         get_prop (JObj (submitTask_req a)) ''caption'' = JStr s"
    by (cases "cloth_id a") (simp_all add: submitTask_req_def)
  ultimately show ?thesis by blast
qed

theorem submitTask_request_body_witness:
  "snd (submitTask example_platform (answering 200 (envelope 0 ''ok'' JNull)) example_client
          example_args [])
     = [submitTask_request example_client example_args]
   \<and> keys (JObj (submitTask_req example_args)) =
        [''user_img_url'', ''cloth_img_url'', ''category'', ''is_sync'']
   \<and> keys (JObj (submitTask_req example_args_full)) =
        [''user_img_url'', ''cloth_img_url'', ''category'', ''is_sync'', ''cloth_id'', ''caption'']
   \<and> get_prop (JObj (submitTask_req example_args_full)) ''cloth_id'' = JStr ''c42''
   \<and> get_prop (JObj (submitTask_req example_args_full)) ''caption'' = JStr ''red coat''"
  using
    submitTask_request_body
      [of example_args example_platform "answering 200 (envelope 0 ''ok'' JNull)"
          example_client "[]"]
    submitTask_request_body
      [of example_args_full example_platform "answering 200 (envelope 0 ''ok'' JNull)"
          example_client "[]"]
  by (simp add: example_args_def example_args_full_def)

text \<open>
  Claim C5. On a successful remote response (status 200 to 299, envelope code 0, \<open>data\<close> a
  task record), \<open>submitTask\<close> and \<open>queryTask\<close> return an object with exactly the keys
  \<open>task_id\<close>, \<open>created_at\<close>, \<open>updated_at\<close>, \<open>status\<close>, \<open>tryon_img_url\<close>. Its \<open>task_id\<close> is
  \<open>data.uuid\<close> for \<open>submitTask\<close> and the caller's \<open>task_id\<close> for \<open>queryTask\<close>, whatever the
  remote data holds; \<open>created_at\<close>, \<open>updated_at\<close> and \<open>status\<close> are those of \<open>data\<close>; and
  \<open>tryon_img_url\<close> is that of \<open>data\<close> when truthy and the empty string otherwise.
\<close>

theorem task_projection:
  assumes "200 \<le> n" and "n \<le> 299" and "\<not> nullish env"
    and "get_prop env ''code'' = JNum 0"
    and "data = get_prop env ''data''" and "\<not> nullish data"
    and "resp = \<lparr> status = n, json = Inr env \<rparr>"
  shows
  "(user_img_url a \<noteq> [] \<and> cloth_img_url a \<noteq> [] \<and>
      rm (log @ [submitTask_request c a]) = Inr resp \<longrightarrow>
      (\<exists>task. fst (submitTask pf rm c a log) = Inr task
         \<and> keys task = [''task_id'', ''created_at'', ''updated_at'', ''status'', ''tryon_img_url'']
         \<and> get_prop task ''task_id'' = get_prop data ''uuid''
         \<and> get_prop task ''created_at'' = get_prop data ''created_at''
         \<and> get_prop task ''updated_at'' = get_prop data ''updated_at''
         \<and> get_prop task ''status'' = get_prop data ''status''
         \<and> get_prop task ''tryon_img_url'' =
             (if truthy (get_prop data ''tryon_img_url'') then get_prop data ''tryon_img_url''
              else JStr [])))
   \<and> (rm (log @ [queryTask_request c t]) = Inr resp \<longrightarrow>
      (\<exists>task. fst (queryTask pf rm c t log) = Inr task
         \<and> keys task = [''task_id'', ''created_at'', ''updated_at'', ''status'', ''tryon_img_url'']
         \<and> get_prop task ''task_id'' = JStr t
         \<and> get_prop task ''created_at'' = get_prop data ''created_at''
         \<and> get_prop task ''updated_at'' = get_prop data ''updated_at''
         \<and> get_prop task ''status'' = get_prop data ''status''
         \<and> get_prop task ''tryon_img_url'' =
             (if truthy (get_prop data ''tryon_img_url'') then get_prop data ''tryon_img_url''
              else JStr [])))"
proof -
  have okr: "ok resp" using assms by (simp add: ok_def)
  have js: "json resp = Inr env" using assms by simp
  note u = unwrap_ok [OF okr js assms(3)]
  show ?thesis
    using assms(4,5,6)
    by (auto simp: fst_submitTask fst_queryTask u task_result_def tryon_task_def js_or_def)
qed

theorem task_projection_witness:
  "fst (submitTask example_platform (answering 200 (envelope 0 ''ok'' example_task_data))
          example_client example_args [])
     = Inr (JObj [(''task_id'', JStr ''abc123''), (''created_at'', JNum 1700000000),
                  (''updated_at'', JNum 1700000005), (''status'', JStr ''pending''),
                  (''tryon_img_url'', JStr [])])
   \<and> fst (queryTask example_platform (answering 200 (envelope 0 ''ok'' example_task_data))
          example_client ''t1'' [])
     = Inr (JObj [(''task_id'', JStr ''t1''), (''created_at'', JNum 1700000000),
                  (''updated_at'', JNum 1700000005), (''status'', JStr ''pending''),
                  (''tryon_img_url'', JStr [])])"
proof -
  let ?rm = "answering 200 (envelope 0 ''ok'' example_task_data)"
  have h: "(\<exists>task. fst (submitTask example_platform ?rm example_client example_args [])
               = Inr task)
         \<and> (\<exists>task. fst (queryTask example_platform ?rm example_client ''t1'' []) = Inr task)"
    using task_projection
      [of 200 "envelope 0 ''ok'' example_task_data" example_task_data
          "\<lparr> status = 200, json = Inr (envelope 0 ''ok'' example_task_data) \<rparr>"
          example_args ?rm "[]" example_client example_platform "''t1''"]
    by (simp add: answering_def envelope_def example_args_def example_task_data_def) blast
  show ?thesis
    using h
    by (simp add: submitTask_def queryTask_def fetch_def answering_def envelope_def
        example_args_def example_task_data_def unwrap_def ok_def task_result_def
        tryon_task_def js_or_def)
qed

text \<open>
  Claim C10. \<open>queryTask\<close> validates nothing: for every \<open>task_id\<close>, the empty string
  included, it issues the POST request whose body is the JSON text of
  \<open>{task_uuid: task_id}\<close>. Given a response whose body parses to an envelope with its
  \<open>data\<close> present, it fails exactly when the status is outside 200 to 299 or the envelope's
  code is not 0.
\<close>

theorem queryTask_does_not_validate:
  "snd (queryTask pf rm c task_id log) = log @ [queryTask_request c task_id]
   \<and> http_method (queryTask_request c task_id) = ''POST''
   \<and> body (queryTask_request c task_id) = json_stringify (JObj [(''task_uuid'', JStr task_id)])
   \<and> (rm (log @ [queryTask_request c task_id]) = Inr \<lparr> status = n, json = Inr env \<rparr>
        \<and> \<not> nullish env \<and> \<not> nullish (get_prop env ''data'') \<longrightarrow>
       (isl (fst (queryTask pf rm c task_id log))
          \<longleftrightarrow> n < 200 \<or> 299 < n \<or> get_prop env ''code'' \<noteq> JNum 0))"
proof -
  have "rm (log @ [queryTask_request c task_id]) = Inr \<lparr> status = n, json = Inr env \<rparr>
        \<and> \<not> nullish env \<and> \<not> nullish (get_prop env ''data'') \<longrightarrow>
       (isl (fst (queryTask pf rm c task_id log))
          \<longleftrightarrow> n < 200 \<or> 299 < n \<or> get_prop env ''code'' \<noteq> JNum 0)"
    by (auto simp: fst_queryTask unwrap_def ok_def task_result_def)
  then show ?thesis
    by (simp add: snd_queryTask queryTask_request_def)
qed

theorem queryTask_does_not_validate_witness:
  "snd (queryTask example_platform (answering 200 (envelope 0 ''ok'' example_task_data))
          example_client [] [])
     = [queryTask_request example_client []]
   \<and> \<not> isl (fst (queryTask example_platform
                   (answering 200 (envelope 0 ''ok'' example_task_data)) example_client [] []))"
  using queryTask_does_not_validate
    [of example_platform "answering 200 (envelope 0 ''ok'' example_task_data)" example_client
        "[]" "[]" 200 "envelope 0 ''ok'' example_task_data"]
  by (simp add: answering_def envelope_def example_task_data_def)

section \<open>Properties of the handlers\<close>

subsection \<open>The catch clause and the API key\<close>

lemma rethrow_Inl [simp]: "rethrow p (Inl e) = Inl (Error (p @ message e))"
  by (simp add: rethrow_def)

lemma rethrow_Inr [simp]: "rethrow p (Inr v) = Inr v"
  by (simp add: rethrow_def)

lemma rethrow_fails: "rethrow p r = Inl e \<Longrightarrow> \<exists>cause. e = Error (p @ cause)"
  by (cases r) auto

lemma resolve_api_key_missing:
  "\<not> truthy auth \<Longrightarrow> \<not> truthy dflt \<Longrightarrow>
     resolve_api_key auth dflt = Inl (Error ''HEYBEAUTY_API_KEY is not set'')"
  by (simp add: resolve_api_key_def js_or_def)

lemma resolve_api_key_present:
  "truthy (js_or auth dflt) \<Longrightarrow> resolve_api_key auth dflt = Inr (js_or auth dflt)"
  by (simp add: resolve_api_key_def)

lemma list_resources_key:
  "truthy (js_or auth dflt) \<Longrightarrow>
     list_resources pf rm dflt auth log = list_resources pf rm dflt' (js_or auth dflt) log"
  by (simp add: list_resources_def resolve_api_key_def js_or_def)

lemma read_resource_key:
  "truthy (js_or auth dflt) \<Longrightarrow>
     read_resource pf rm dflt auth u log = read_resource pf rm dflt' (js_or auth dflt) u log"
  by (simp add: read_resource_def resolve_api_key_def js_or_def)

lemma call_tool_key:
  "truthy (js_or auth dflt) \<Longrightarrow>
     call_tool pf rm dflt auth n args log = call_tool pf rm dflt' (js_or auth dflt) n args log"
  by (simp add: call_tool_def resolve_api_key_def js_or_def)

lemma handle_key:
  "truthy (js_or auth dflt) \<Longrightarrow>
     handle pf rm dflt auth req log = handle pf rm dflt' (js_or auth dflt) req log"
  by (cases req) (simp_all add: list_resources_key [of auth dflt _ _ _ dflt']
      read_resource_key [of auth dflt _ _ _ _ dflt'] call_tool_key [of auth dflt _ _ _ _ _ dflt'])

subsection \<open>The requests a handler issues\<close>

lemma authorization_getClothes:
  "map_of (headers (getClothes_request (new_HeyBeautyClient key b))) ''Authorization''
     = Some (''Bearer '' @ to_string key)"
  by (simp add: getClothes_request_def authorization_def new_HeyBeautyClient_def)

lemma authorization_submitTask:
  "map_of (headers (submitTask_request (new_HeyBeautyClient key b) a)) ''Authorization''
     = Some (''Bearer '' @ to_string key)"
  by (simp add: submitTask_request_def authorization_def new_HeyBeautyClient_def)

lemma authorization_queryTask:
  "map_of (headers (queryTask_request (new_HeyBeautyClient key b) t)) ''Authorization''
     = Some (''Bearer '' @ to_string key)"
  by (simp add: queryTask_request_def authorization_def new_HeyBeautyClient_def)

lemma sent_list_resources:
  "sent_with (js_or auth dflt) log (snd (list_resources pf rm dflt auth log))"
proof (cases "resolve_api_key auth dflt")
  case (Inl e)
  then show ?thesis by (simp add: list_resources_def sent_with_def)
next
  case (Inr key)
  then have k: "key = js_or auth dflt"
    by (simp add: resolve_api_key_def split: if_splits)
  obtain r l where g: "getClothes pf rm (new_HeyBeautyClient key None) log = (r, l)"
    by (cases "getClothes pf rm (new_HeyBeautyClient key None) log")
  then have l: "l = log @ [getClothes_request (new_HeyBeautyClient key None)]"
    using snd_getClothes [of pf rm "new_HeyBeautyClient key None" log] by simp
  have "snd (list_resources pf rm dflt auth log) = l"
    using Inr g by (cases r) (simp_all add: list_resources_def)
  then show ?thesis
    using l k by (simp add: sent_with_def authorization_getClothes)
qed

lemma sent_read_resource:
  "sent_with (js_or auth dflt) log (snd (read_resource pf rm dflt auth u log))"
proof (cases "resolve_api_key auth dflt")
  case (Inl e)
  then show ?thesis by (simp add: read_resource_def sent_with_def)
next
  case (Inr key)
  then have k: "key = js_or auth dflt"
    by (simp add: resolve_api_key_def split: if_splits)
  show ?thesis
  proof (cases "url_pathname pf u")
    case (Inl e)
    then show ?thesis using Inr by (simp add: read_resource_def sent_with_def)
  next
    case pn: (Inr pathname)
    obtain r l where g: "getClothes pf rm (new_HeyBeautyClient key None) log = (r, l)"
      by (cases "getClothes pf rm (new_HeyBeautyClient key None) log")
    then have l: "l = log @ [getClothes_request (new_HeyBeautyClient key None)]"
      using snd_getClothes [of pf rm "new_HeyBeautyClient key None" log] by simp
    have "snd (read_resource pf rm dflt auth u log) = l"
      using Inr pn g by (cases r) (simp_all add: read_resource_def)
    then show ?thesis
      using l k by (simp add: sent_with_def authorization_getClothes)
  qed
qed

lemma snd_submit_tryon_task:
  "snd (submit_tryon_task pf rm c args log) = log
   \<or> (\<exists>a. snd (submit_tryon_task pf rm c args log) = log @ [submitTask_request c a])"
proof -
  let ?a = "\<lparr> user_img_url = to_string (js_or (opt_prop args ''user_img_url'') (JStr [])),
              cloth_img_url = to_string (js_or (opt_prop args ''cloth_img_url'') (JStr [])),
              cloth_id = Some (to_string (js_or (opt_prop args ''cloth_id'') (JStr []))),
              cloth_description =
                Some (to_string (js_or (opt_prop args ''cloth_description'') (JStr []))) \<rparr>"
  obtain r l where s: "submitTask pf rm c ?a log = (r, l)"
    by (cases "submitTask pf rm c ?a log")
  then have "l = log \<or> l = log @ [submitTask_request c ?a]"
    using snd_submitTask [of pf rm c ?a log] by (simp split: if_splits)
  moreover have "snd (submit_tryon_task pf rm c args log) = log
                 \<or> snd (submit_tryon_task pf rm c args log) = l"
    using s by (cases r) (simp_all add: submit_tryon_task_def Let_def)
  ultimately show ?thesis by metis
qed

lemma snd_query_tryon_task:
  "snd (query_tryon_task pf rm c args log) = log
   \<or> (\<exists>t. snd (query_tryon_task pf rm c args log) = log @ [queryTask_request c t])"
proof -
  let ?t = "to_string (opt_prop args ''task_id'')"
  obtain r l where q: "queryTask pf rm c ?t log = (r, l)"
    by (cases "queryTask pf rm c ?t log")
  then have "l = log @ [queryTask_request c ?t]"
    using snd_queryTask [of pf rm c ?t log] by simp
  moreover have "snd (query_tryon_task pf rm c args log) = log
                 \<or> snd (query_tryon_task pf rm c args log) = l"
    using q by (cases r) (simp_all add: query_tryon_task_def Let_def)
  ultimately show ?thesis by metis
qed

lemma sent_call_tool:
  "sent_with (js_or auth dflt) log (snd (call_tool pf rm dflt auth n args log))"
proof (cases "resolve_api_key auth dflt")
  case (Inl e)
  then show ?thesis by (simp add: call_tool_def sent_with_def)
next
  case (Inr key)
  then have k: "key = js_or auth dflt"
    by (simp add: resolve_api_key_def split: if_splits)
  let ?c = "new_HeyBeautyClient key None"
  have "snd (call_tool pf rm dflt auth n args log) =
          (if n = ''submit_tryon_task'' then snd (submit_tryon_task pf rm ?c args log)
           else if n = ''query_tryon_task'' then snd (query_tryon_task pf rm ?c args log)
           else log)"
    using Inr by (simp add: call_tool_def split: prod.splits)
  then show ?thesis
    using snd_submit_tryon_task [of pf rm ?c args log]
      snd_query_tryon_task [of pf rm ?c args log] k
    by (auto simp: sent_with_def authorization_submitTask authorization_queryTask)
qed

lemma sent_handle:
  "sent_with (js_or auth dflt) log (snd (handle pf rm dflt auth req log))"
  by (cases req)
     (simp_all add: sent_list_resources sent_read_resource sent_call_tool, simp_all add: sent_with_def)

subsection \<open>Failures\<close>

lemma list_resources_fails:
  "fst (list_resources pf rm dflt auth log) = Inl e \<Longrightarrow>
     \<exists>cause. e = Error (''get resources failed: '' @ cause)"
  by (auto simp: list_resources_def split: sum.splits prod.splits dest: rethrow_fails)

lemma read_resource_fails:
  "fst (read_resource pf rm dflt auth u log) = Inl e \<Longrightarrow>
     \<exists>cause. e = Error (''read resource failed: '' @ cause)"
  by (auto simp: read_resource_def split: sum.splits prod.splits dest: rethrow_fails)

lemma call_tool_fails:
  "fst (call_tool pf rm dflt auth n args log) = Inl e \<Longrightarrow>
     \<exists>cause. e = Error (''call tool failed: '' @ cause)"
  by (auto simp: call_tool_def split: sum.splits prod.splits dest: rethrow_fails)

lemma handle_key_missing:
  "resolves_api_key req \<Longrightarrow> \<not> truthy auth \<Longrightarrow> \<not> truthy dflt \<Longrightarrow>
     handle pf rm dflt auth req log
       = (Inl (Error (catch_prefix req @ ''HEYBEAUTY_API_KEY is not set'')), log)"
  by (cases req)
     (simp_all add: list_resources_def read_resource_def call_tool_def resolve_api_key_missing)

lemma handle_static:
  "\<not> resolves_api_key req \<Longrightarrow>
     handle pf rm dflt auth req log = handle pf rm dflt' auth' req log"
  by (cases req) simp_all

subsection \<open>Resolving the API key\<close>

text \<open>
  Claim C8, amended. The handlers of list resources, read resource and call tool resolve
  the API key first: with neither a request-scoped value nor a process-wide default they
  fail with \<open>HEYBEAUTY_API_KEY is not set\<close> behind their prefix, and no request is issued;
  a request-scoped value takes precedence (the default is then immaterial); without one,
  the default is used; and a request that is issued carries the resolved key as its bearer
  token. The handlers of list tools, list prompts and get prompt do not depend on either
  value. As stated for every handler the claim fails: the last theorem of this subsection
  runs the list-tools handler with neither key present, and it succeeds.
\<close>

theorem api_key_resolution:
  "(resolves_api_key req \<longrightarrow>
      (\<not> truthy auth \<and> \<not> truthy dflt \<longrightarrow>
         handle pf rm dflt auth req log
           = (Inl (Error (catch_prefix req @ ''HEYBEAUTY_API_KEY is not set'')), log))
    \<and> (truthy auth \<longrightarrow>
         handle pf rm dflt auth req log = handle pf rm dflt' auth req log)
    \<and> (\<not> truthy auth \<and> truthy dflt \<longrightarrow>
         handle pf rm dflt auth req log = handle pf rm dflt dflt req log)
    \<and> sent_with (js_or auth dflt) log (snd (handle pf rm dflt auth req log)))
   \<and> (\<not> resolves_api_key req \<longrightarrow>
         handle pf rm dflt auth req log = handle pf rm dflt' auth' req log)"
proof -
  have a: "truthy auth \<longrightarrow> handle pf rm dflt auth req log = handle pf rm dflt' auth req log"
    using handle_key [of auth dflt pf rm req log dflt'] by (simp add: js_or_def)
  have b: "\<not> truthy auth \<and> truthy dflt \<longrightarrow>
             handle pf rm dflt auth req log = handle pf rm dflt dflt req log"
    using handle_key [of auth dflt pf rm req log dflt] by (simp add: js_or_def)
  show ?thesis
    using a b handle_key_missing [of req auth dflt pf rm log]
      handle_static [of req pf rm dflt auth log dflt' auth']
      sent_handle [of auth dflt log pf rm req]
    by blast
qed

theorem api_key_resolution_witness:
  "handle example_platform (answering 200 (envelope 0 ''ok'' (JArr []))) (JStr []) JUndefined
       ListResources []
     = (Inl (Error ''get resources failed: HEYBEAUTY_API_KEY is not set''), [])
   \<and> handle example_platform (answering 200 (envelope 0 ''ok'' (JArr []))) (JStr ''dflt'')
        (JStr ''scoped'') ListResources []
     = handle example_platform (answering 200 (envelope 0 ''ok'' (JArr []))) (JStr ''other'')
        (JStr ''scoped'') ListResources []
   \<and> handle example_platform (answering 200 (envelope 0 ''ok'' (JArr []))) (JStr ''dflt'')
        JUndefined ListResources []
     = handle example_platform (answering 200 (envelope 0 ''ok'' (JArr []))) (JStr ''dflt'')
        (JStr ''dflt'') ListResources []
   \<and> handle example_platform (answering 200 (envelope 0 ''ok'' (JArr []))) (JStr []) JUndefined
        ListTools []
     = handle example_platform (answering 200 (envelope 0 ''ok'' (JArr []))) (JStr ''dflt'')
        (JStr ''scoped'') ListTools []"
  using
    api_key_resolution
      [of ListResources JUndefined "JStr []" example_platform
          "answering 200 (envelope 0 ''ok'' (JArr []))" "[]" "JStr ''other''" JUndefined]
    api_key_resolution
      [of ListResources "JStr ''scoped''" "JStr ''dflt''" example_platform
          "answering 200 (envelope 0 ''ok'' (JArr []))" "[]" "JStr ''other''" JUndefined]
    api_key_resolution
      [of ListResources JUndefined "JStr ''dflt''" example_platform
          "answering 200 (envelope 0 ''ok'' (JArr []))" "[]" "JStr ''other''" JUndefined]
    api_key_resolution
      [of ListTools JUndefined "JStr []" example_platform
          "answering 200 (envelope 0 ''ok'' (JArr []))" "[]" "JStr ''dflt''" "JStr ''scoped''"]
  by (simp add: js_or_def)

theorem list_tools_needs_no_api_key:
  "\<not> truthy JUndefined \<and> \<not> truthy (heybeautyApiKey JUndefined)
   \<and> \<not> isl (fst (handle example_platform (answering 200 (envelope 0 ''ok'' (JArr [])))
                    (heybeautyApiKey JUndefined) JUndefined ListTools []))"
  by (simp add: heybeautyApiKey_def js_or_def list_tools_def)

subsection \<open>What a failure looks like\<close>

text \<open>
  Claim C9, amended. A failure of the list-resources, read-resource or call-tool handler
  is one \<open>Error\<close> whose message begins with that handler's prefix (\<open>get resources failed: \<close>,
  \<open>read resource failed: \<close>, \<open>call tool failed: \<close>). The handlers of list tools and list
  prompts never fail. The get-prompt handler fails exactly for a name other than
  \<open>tryon_cloth\<close>, with the message \<open>Unknown prompt\<close> and no prefix, since it has no \<open>try\<close>
  block. No handler issues more than one HTTP request: nothing is retried. As stated for
  every handler the claim fails, as the last theorem of this subsection shows on the
  get-prompt handler.
\<close>

theorem handler_failures:
  "(catches_errors req \<longrightarrow>
      (\<forall>e. fst (handle pf rm dflt auth req log) = Inl e \<longrightarrow>
           (\<exists>cause. e = Error (catch_prefix req @ cause))))
   \<and> (req = ListTools \<or> req = ListPrompts \<longrightarrow> \<not> isl (fst (handle pf rm dflt auth req log)))
   \<and> (\<forall>n. req = GetPrompt n \<longrightarrow>
         (isl (fst (handle pf rm dflt auth req log)) \<longleftrightarrow> n \<noteq> ''tryon_cloth'')
       \<and> (\<forall>e. fst (handle pf rm dflt auth req log) = Inl e \<longrightarrow> e = Error ''Unknown prompt''))
   \<and> (snd (handle pf rm dflt auth req log) = log
      \<or> (\<exists>r. snd (handle pf rm dflt auth req log) = log @ [r]))"
proof -
  have 1: "catches_errors req \<longrightarrow>
      (\<forall>e. fst (handle pf rm dflt auth req log) = Inl e \<longrightarrow>
           (\<exists>cause. e = Error (catch_prefix req @ cause)))"
    by (cases req) (auto dest: list_resources_fails read_resource_fails call_tool_fails)
  have 2: "req = ListTools \<or> req = ListPrompts \<longrightarrow>
             \<not> isl (fst (handle pf rm dflt auth req log))"
    by (auto simp: list_tools_def list_prompts_def)
  have 3: "\<forall>n. req = GetPrompt n \<longrightarrow>
         (isl (fst (handle pf rm dflt auth req log)) \<longleftrightarrow> n \<noteq> ''tryon_cloth'')
       \<and> (\<forall>e. fst (handle pf rm dflt auth req log) = Inl e \<longrightarrow> e = Error ''Unknown prompt'')"
    by (auto simp: get_prompt_def)
  have 4: "snd (handle pf rm dflt auth req log) = log
      \<or> (\<exists>r. snd (handle pf rm dflt auth req log) = log @ [r])"
    using sent_handle [of auth dflt log pf rm req] by (auto simp: sent_with_def)
  show ?thesis using 1 2 3 4 by blast
qed

theorem handler_failures_witness:
  "(\<exists>cause. Error ''call tool failed: Unknown tool'' = Error (''call tool failed: '' @ cause))
   \<and> fst (handle example_platform (answering 200 (envelope 0 ''ok'' (JArr []))) (JStr [])
           (JStr ''secret'') (CallTool ''no_such_tool'' JUndefined) [])
       = Inl (Error ''call tool failed: Unknown tool'')
   \<and> \<not> isl (fst (handle example_platform (answering 200 (envelope 0 ''ok'' (JArr [])))
                    (JStr []) (JStr ''secret'') ListTools []))
   \<and> isl (fst (handle example_platform (answering 200 (envelope 0 ''ok'' (JArr []))) (JStr [])
                 (JStr ''secret'') (GetPrompt ''other'') []))"
proof -
  let ?rm = "answering 200 (envelope 0 ''ok'' (JArr []))"
  have f: "fst (handle example_platform ?rm (JStr []) (JStr ''secret'')
                  (CallTool ''no_such_tool'' JUndefined) [])
             = Inl (Error ''call tool failed: Unknown tool'')"
    by (simp add: call_tool_def resolve_api_key_def js_or_def new_HeyBeautyClient_def)
  show ?thesis
    using f
      handler_failures
        [of "CallTool ''no_such_tool'' JUndefined" example_platform ?rm "JStr []"
            "JStr ''secret''" "[]"]
      handler_failures [of ListTools example_platform ?rm "JStr []" "JStr ''secret''" "[]"]
      handler_failures
        [of "GetPrompt ''other''" example_platform ?rm "JStr []" "JStr ''secret''" "[]"]
    by simp
qed

theorem unknown_prompt_has_no_prefix:
  "handle example_platform (answering 200 (envelope 0 ''ok'' (JArr []))) (JStr ''secret'')
     JUndefined (GetPrompt ''other'') []
   = (Inl (Error ''Unknown prompt''), [])"
  by (simp add: get_prompt_def)

subsection \<open>The task id of the query tool\<close>

text \<open>An argument that \<open>String\<close> turns into the empty string is rejected, and nothing is sent.\<close>

lemma query_tool_rejects_empty_task_id:
  "truthy (js_or auth dflt) \<Longrightarrow> to_string (opt_prop args ''task_id'') = [] \<Longrightarrow>
     call_tool pf rm dflt auth ''query_tryon_task'' args log
       = (Inl (Error ''call tool failed: task id is required''), log)"
  by (simp add: call_tool_def resolve_api_key_def query_tryon_task_def)

text \<open>
  Claim C7, evaluated where the code departs from it. With an API key present and the
  \<open>task_id\<close> argument missing (the arguments are \<open>{}\<close>, or absent altogether),
  \<open>String(undefined)\<close> is the string \<open>undefined\<close>, which is not empty: the handler issues
  the query request with \<open>task_uuid\<close> \<open>"undefined"\<close>, and on a successful response returns
  a task whose \<open>task_id\<close> is \<open>"undefined"\<close>.
\<close>

theorem query_tool_missing_task_id:
  "snd (call_tool pf rm dflt (JStr ''secret'') ''query_tryon_task'' (JObj []) log)
     = log @ [queryTask_request (new_HeyBeautyClient (JStr ''secret'') None) ''undefined'']
   \<and> snd (call_tool pf rm dflt (JStr ''secret'') ''query_tryon_task'' JUndefined log)
     = log @ [queryTask_request (new_HeyBeautyClient (JStr ''secret'') None) ''undefined'']
   \<and> fst (call_tool example_platform (answering 200 (envelope 0 ''ok'' example_task_data))
           (JStr []) (JStr ''secret'') ''query_tryon_task'' (JObj []) [])
     = Inr (text_content (tryon_task (JStr ''undefined'') example_task_data))"
proof -
  let ?c = "new_HeyBeautyClient (JStr ''secret'') None"
  have q: "\<And>args. to_string (opt_prop args ''task_id'') = ''undefined'' \<Longrightarrow>
      snd (call_tool pf rm dflt (JStr ''secret'') ''query_tryon_task'' args log)
        = log @ [queryTask_request ?c ''undefined'']"
  proof -
    fix args :: jsval
    assume t: "to_string (opt_prop args ''task_id'') = ''undefined''"
    obtain r l where q: "queryTask pf rm ?c ''undefined'' log = (r, l)"
      by (cases "queryTask pf rm ?c ''undefined'' log")
    then have "l = log @ [queryTask_request ?c ''undefined'']"
      using snd_queryTask [of pf rm ?c "''undefined''" log] by simp
    then show "snd (call_tool pf rm dflt (JStr ''secret'') ''query_tryon_task'' args log)
        = log @ [queryTask_request ?c ''undefined'']"
      using q t
      by (cases r)
         (simp_all add: call_tool_def resolve_api_key_def js_or_def query_tryon_task_def)
  qed
  have "fst (call_tool example_platform (answering 200 (envelope 0 ''ok'' example_task_data))
           (JStr []) (JStr ''secret'') ''query_tryon_task'' (JObj []) [])
     = Inr (text_content (tryon_task (JStr ''undefined'') example_task_data))"
    by (simp add: call_tool_def resolve_api_key_def js_or_def query_tryon_task_def opt_prop_def
        queryTask_def fetch_def answering_def unwrap_def ok_def envelope_def task_result_def
        example_task_data_def Let_def)
  then show ?thesis
    using q [of "JObj []"] q [of JUndefined] by (simp add: opt_prop_def)
qed

section \<open>Cloth resources: from the list to the read\<close>

subsection \<open>Parsing the URI of a cloth whose id needs no encoding\<close>

lemma unencoded_char:
  assumes "\<not> path_percent_encode_set c"
  shows "\<not> c0_or_space c" and "\<not> tab_or_newline c" and "c \<noteq> CHR ''?''" and "c \<noteq> CHR ''#''"
    and "percent_encode c = [c]"
proof -
  have n: "\<not> (of_char c :: nat) \<le> 0x20"
    using assms by (simp add: path_percent_encode_set_def)
  have m: "c \<notin> set [CHR 0x22, CHR 0x23, CHR 0x3C, CHR 0x3E, CHR 0x3F, CHR 0x5E, CHR 0x60,
                       CHR 0x7B, CHR 0x7D]"
    using assms unfolding path_percent_encode_set_def by blast
  show "\<not> c0_or_space c" using n by (simp add: c0_or_space_def)
  show "\<not> tab_or_newline c"
  proof
    assume "tab_or_newline c"
    then consider "c = CHR 0x09" | "c = CHR 0x0A" | "c = CHR 0x0D"
      unfolding tab_or_newline_def by blast
    then have "(of_char c :: nat) \<le> 0x20" by cases simp_all
    then show False using n by simp
  qed
  show "c \<noteq> CHR ''?''" using m by simp
  show "c \<noteq> CHR ''#''" using m by simp
  show "percent_encode c = [c]" using assms by (simp add: percent_encode_def)
qed

lemma dropWhile_unchanged: "xs = [] \<or> \<not> P (hd xs) \<Longrightarrow> dropWhile P xs = xs"
  by (cases xs) auto

lemma url_trim_cloth:
  assumes "list_all (\<lambda>c. \<not> path_percent_encode_set c) s"
  shows "url_trim (''cloth:///'' @ s) = ''cloth:///'' @ s"
proof -
  let ?u = "''cloth:///'' @ s"
  have lead: "dropWhile c0_or_space ?u = ?u"
    by (simp add: c0_or_space_def)
  have "\<not> c0_or_space (hd (rev ?u))"
  proof (cases "s = []")
    case True
    then show ?thesis by (simp add: c0_or_space_def)
  next
    case False
    then have "hd (rev ?u) = last s" by (simp add: hd_rev)
    moreover have "last s \<in> set s" using False by simp
    ultimately show ?thesis
      using assms unencoded_char(1) by (auto simp: list_all_iff)
  qed
  then have rear: "dropWhile c0_or_space (rev ?u) = rev ?u"
    by (intro dropWhile_unchanged) simp
  have "\<forall>c \<in> set ?u. \<not> tab_or_newline c"
    using assms unencoded_char(2) by (auto simp: list_all_iff tab_or_newline_def)
  then have "filter (\<lambda>c. \<not> tab_or_newline c) ?u = ?u"
    by (intro filter_True) simp
  then show ?thesis
    unfolding url_trim_def lead rear rev_rev_ident .
qed

lemma path_state_unencoded:
  "list_all (\<lambda>c. \<not> path_percent_encode_set c) s \<Longrightarrow> no_dot_segments buf s \<Longrightarrow>
     concat (map (\<lambda>seg. CHR ''/'' # seg) (path_state path buf s))
       = concat (map (\<lambda>seg. CHR ''/'' # seg) path) @ CHR ''/'' # buf @ s"
proof (induction s arbitrary: path buf)
  case Nil
  then show ?case by (simp add: close_segment_def)
next
  case (Cons c cs)
  have c: "c \<noteq> CHR ''?''" "c \<noteq> CHR ''#''" "percent_encode c = [c]"
    using Cons.prems(1) unencoded_char by simp_all
  show ?case
  proof (cases "c = CHR ''/''")
    case True
    then have "no_dot_segments [] cs" "\<not> single_dot buf" "\<not> double_dot buf"
      using Cons.prems(2) by simp_all
    then show ?thesis
      using True Cons.IH [of "[]" "path @ [buf]"] Cons.prems(1)
      by (simp add: close_segment_def)
  next
    case False
    then have "no_dot_segments (buf @ [c]) cs" using Cons.prems(2) by simp
    then show ?thesis
      using False c Cons.IH [of "buf @ [c]" path] Cons.prems(1) by simp
  qed
qed

lemma url_pathname_safe:
  assumes "path_safe s"
  shows "url_pathname pf (''cloth:///'' @ s) = Inr (CHR ''/'' # s)"
proof -
  have a: "list_all (\<lambda>c. \<not> path_percent_encode_set c) s" and d: "no_dot_segments [] s"
    using assms by (simp_all add: path_safe_def)
  have t: "url_trim (''cloth:///'' @ s) = ''cloth:///'' @ s"
    by (rule url_trim_cloth [OF a])
  have "\<forall>c \<in> set s. c \<noteq> CHR 0x5E"
    using a by (auto simp: list_all_iff path_percent_encode_set_def)
  then have h: "CHR 0x5E \<notin> set (''cloth:///'' @ s)" by auto
  show ?thesis
    unfolding url_pathname_def t
    using h path_state_unencoded [OF a d, of "[]"] by simp
qed

subsection \<open>Mapping and finding in a list without null items\<close>

lemma map_resources_uris:
  "\<forall>x \<in> set xs. \<not> nullish x \<Longrightarrow>
     \<exists>rs. map_throwing (resource_of pf) xs = Inr rs \<and> length rs = length xs
          \<and> (\<forall>i < length xs. uri (rs ! i) = ''cloth:///'' @ to_string (get_prop (xs ! i) ''cloth_id''))"
proof (induction xs)
  case Nil
  then show ?case by simp
next
  case (Cons x xs)
  then obtain rs where rs: "map_throwing (resource_of pf) xs = Inr rs" "length rs = length xs"
    "\<forall>i < length xs. uri (rs ! i) = ''cloth:///'' @ to_string (get_prop (xs ! i) ''cloth_id'')"
    by auto
  have nn: "\<not> nullish x" using Cons.prems by simp
  obtain r where r: "resource_of pf x = Inr r"
    "uri r = ''cloth:///'' @ to_string (get_prop x ''cloth_id'')"
    using nn by (simp add: resource_of_def read_prop_def)
  have "map_throwing (resource_of pf) (x # xs) = Inr (r # rs)"
    using r rs by simp
  moreover have "\<forall>i < length (x # xs).
      uri ((r # rs) ! i) = ''cloth:///'' @ to_string (get_prop ((x # xs) ! i) ''cloth_id'')"
  proof (intro allI impI)
    fix i assume i: "i < length (x # xs)"
    show "uri ((r # rs) ! i) = ''cloth:///'' @ to_string (get_prop ((x # xs) ! i) ''cloth_id'')"
    proof (cases i)
      case 0
      then show ?thesis using r by simp
    next
      case (Suc k)
      then have "k < length xs" using i by simp
      then show ?thesis using rs(3) Suc by simp
    qed
  qed
  ultimately show ?case using rs(2) by auto
qed

lemma find_cloth_first:
  "\<forall>x \<in> set xs. \<not> nullish x \<Longrightarrow> i < length xs \<Longrightarrow>
   loose_eq_string pf (get_prop (xs ! i) ''cloth_id'') s \<Longrightarrow>
   \<forall>j < i. \<not> loose_eq_string pf (get_prop (xs ! j) ''cloth_id'') s \<Longrightarrow>
     find_cloth pf s xs = Inr (xs ! i)"
proof (induction xs arbitrary: i)
  case Nil
  then show ?case by simp
next
  case (Cons x xs)
  have nn: "\<not> nullish x" using Cons.prems(1) by simp
  show ?case
  proof (cases i)
    case 0
    then show ?thesis using Cons.prems(3) nn by (simp add: read_prop_def)
  next
    case (Suc k)
    have "0 < i" using Suc by simp
    then have "\<not> loose_eq_string pf (get_prop ((x # xs) ! 0) ''cloth_id'') s"
      using Cons.prems(4) by blast
    then have x: "\<not> loose_eq_string pf (get_prop x ''cloth_id'') s" by simp
    have "find_cloth pf s xs = Inr (xs ! k)"
    proof (rule Cons.IH)
      show "\<forall>x \<in> set xs. \<not> nullish x"
        using Cons.prems(1) by simp
      show "k < length xs" using Cons.prems(2) Suc by simp
      show "loose_eq_string pf (get_prop (xs ! k) ''cloth_id'') s"
        using Cons.prems(3) Suc by simp
      show "\<forall>j < k. \<not> loose_eq_string pf (get_prop (xs ! j) ''cloth_id'') s"
      proof (intro allI impI)
        fix j assume "j < k"
        then have "Suc j < i" using Suc by simp
        then have "\<not> loose_eq_string pf (get_prop ((x # xs) ! Suc j) ''cloth_id'') s"
          using Cons.prems(4) by blast
        then show "\<not> loose_eq_string pf (get_prop (xs ! j) ''cloth_id'') s" by simp
      qed
    qed
    then show ?thesis using x nn Suc by (simp add: read_prop_def)
  qed
qed

subsection \<open>The round trip\<close>

text \<open>
  What holds of the round trip. The remote answers both calls with the same successful
  clothing list, none of whose items is \<open>null\<close>. Then the list-resources handler returns
  one resource for each item, and the URI of every item is \<open>cloth:///\<close> followed by its
  \<open>cloth_id\<close>. For an item whose id is a string \<open>s\<close> that is \<open>path_safe\<close> (the URL parser
  leaves it as it is), and that is the first item of the list whose \<open>cloth_id\<close> equals \<open>s\<close>
  by \<open>==\<close> (every item is, in a list of distinct string ids), the read-resource handler
  applied to the item's URI returns exactly the \<open>cloth_img_url\<close> of that item as the text.
\<close>

theorem cloth_uri_round_trip:
  assumes key: "truthy (js_or auth dflt)"
    and client: "c = new_HeyBeautyClient (js_or auth dflt) None"
    and resp: "resp = \<lparr> status = n, json = Inr env \<rparr>" "200 \<le> n" "n \<le> 299" "\<not> nullish env"
      "get_prop env ''code'' = JNum 0" "get_prop env ''data'' = JArr clothes"
    and first_call: "rm (log @ [getClothes_request c]) = Inr resp"
    and second_call: "rm (log' @ [getClothes_request c]) = Inr resp"
    and items: "\<forall>x \<in> set clothes. \<not> nullish x"
  shows "\<exists>rs. fst (list_resources pf rm dflt auth log) = Inr (Resources rs)
           \<and> length rs = length clothes
           \<and> (\<forall>k < length clothes.
                 uri (rs ! k) = ''cloth:///'' @ to_string (get_prop (clothes ! k) ''cloth_id''))
           \<and> (\<forall>i s. i < length clothes \<and> get_prop (clothes ! i) ''cloth_id'' = JStr s
                   \<and> path_safe s
                   \<and> (\<forall>j < i. \<not> loose_eq_string pf (get_prop (clothes ! j) ''cloth_id'') s)
                 \<longrightarrow> uri (rs ! i) = ''cloth:///'' @ s
                   \<and> fst (read_resource pf rm dflt auth (uri (rs ! i)) log')
                       = Inr (Contents
                           [\<lparr> contents_uri = ''cloth:///'' @ s,
                              contents_mimeType = ''text/plain'',
                              contents_text = get_prop (clothes ! i) ''cloth_img_url'' \<rparr>]))"
proof -
  have okr: "ok resp" using resp by (simp add: ok_def)
  have js: "json resp = Inr env" using resp by simp
  have u: "unwrap pf ''request failed with status '' resp = Inr (JArr clothes)"
    using unwrap_ok [OF okr js resp(4)] resp(5,6) by simp
  have k: "resolve_api_key auth dflt = Inr (js_or auth dflt)"
    by (rule resolve_api_key_present [OF key])
  have g1: "fst (getClothes pf rm c log) = Inr (JArr clothes)"
    using fst_getClothes [of rm log c resp pf] first_call u by simp
  have g2: "fst (getClothes pf rm c log') = Inr (JArr clothes)"
    using fst_getClothes [of rm log' c resp pf] second_call u by simp
  obtain rs where rs: "map_throwing (resource_of pf) clothes = Inr rs"
    "length rs = length clothes"
    "\<forall>i < length clothes.
       uri (rs ! i) = ''cloth:///'' @ to_string (get_prop (clothes ! i) ''cloth_id'')"
    using map_resources_uris [OF items] by blast
  have l: "fst (list_resources pf rm dflt auth log) = Inr (Resources rs)"
    using k g1 rs(1) client
    by (cases "getClothes pf rm c log") (simp add: list_resources_def)
  have rd: "uri (rs ! i) = ''cloth:///'' @ s
            \<and> fst (read_resource pf rm dflt auth (uri (rs ! i)) log')
                = Inr (Contents
                    [\<lparr> contents_uri = ''cloth:///'' @ s,
                       contents_mimeType = ''text/plain'',
                       contents_text = get_prop (clothes ! i) ''cloth_img_url'' \<rparr>])"
    if item: "i < length clothes" "get_prop (clothes ! i) ''cloth_id'' = JStr s"
      and safe: "path_safe s"
      and earliest: "\<forall>j < i. \<not> loose_eq_string pf (get_prop (clothes ! j) ''cloth_id'') s"
    for i s
  proof -
    have ur: "uri (rs ! i) = ''cloth:///'' @ s"
      using rs(3) item by simp
    have eq: "loose_eq_string pf (get_prop (clothes ! i) ''cloth_id'') s"
      using item(2) by simp
    have f: "find_cloth pf s clothes = Inr (clothes ! i)"
      by (rule find_cloth_first [OF items item(1) eq earliest])
    have tr: "truthy (clothes ! i)"
      using item(2) by (cases "clothes ! i") simp_all
    have rc: "read_cloth pf (''cloth:///'' @ s) s (JArr clothes)
                = Inr (Contents [\<lparr> contents_uri = ''cloth:///'' @ s,
                                    contents_mimeType = ''text/plain'',
                                    contents_text = get_prop (clothes ! i) ''cloth_img_url'' \<rparr>])"
      using f tr by (simp add: read_cloth_def)
    have r: "fst (read_resource pf rm dflt auth (''cloth:///'' @ s) log')
               = Inr (Contents [\<lparr> contents_uri = ''cloth:///'' @ s,
                                   contents_mimeType = ''text/plain'',
                                   contents_text = get_prop (clothes ! i) ''cloth_img_url'' \<rparr>])"
      using k g2 client rc url_pathname_safe [OF safe, of pf]
      by (cases "getClothes pf rm c log'") (simp add: read_resource_def)
    show ?thesis using ur r by simp
  qed
  show ?thesis
    using l rs(2) rs(3) rd by blast
qed

theorem cloth_uri_round_trip_example:
  "\<exists>rs. fst (list_resources example_platform
               (answering 200 (envelope 0 ''ok'' (JArr example_clothes)))
               (JStr []) (JStr ''secret'') []) = Inr (Resources rs)
        \<and> length rs = 2
        \<and> uri (rs ! 1) = ''cloth:///c-2''
        \<and> fst (read_resource example_platform
                 (answering 200 (envelope 0 ''ok'' (JArr example_clothes)))
                 (JStr []) (JStr ''secret'') (uri (rs ! 1)) [])
            = Inr (Contents [\<lparr> contents_uri = ''cloth:///c-2'',
                                contents_mimeType = ''text/plain'',
                                contents_text = JStr ''https://x/c2.jpg'' \<rparr>])"
proof -
  let ?env = "envelope 0 ''ok'' (JArr example_clothes)"
  let ?resp = "\<lparr> status = 200, json = Inr ?env \<rparr>"
  have key: "truthy (js_or (JStr ''secret'') (JStr []))" by (simp add: js_or_def)
  have client: "example_client = new_HeyBeautyClient (js_or (JStr ''secret'') (JStr [])) None"
    by (simp add: example_client_def js_or_def)
  have env: "\<not> nullish ?env" "get_prop ?env ''code'' = JNum 0"
    "get_prop ?env ''data'' = JArr example_clothes"
    by (simp_all add: envelope_def)
  have call: "answering 200 ?env ([] @ [getClothes_request example_client]) = Inr ?resp"
    by (simp add: answering_def)
  have items: "\<forall>x \<in> set example_clothes. \<not> nullish x"
    by (simp add: example_clothes_def)
  have item: "1 < length example_clothes"
    "get_prop (example_clothes ! 1) ''cloth_id'' = JStr ''c-2''"
    by (simp_all add: example_clothes_def)
  have safe: "path_safe ''c-2''" by code_simp
  have earliest:
    "\<forall>j < 1. \<not> loose_eq_string example_platform (get_prop (example_clothes ! j) ''cloth_id'') ''c-2''"
    by (simp add: example_clothes_def)
  have "200 \<le> (200::nat)" "(200::nat) \<le> 299" by simp_all
  from cloth_uri_round_trip
    [where rm = "answering 200 ?env" and log = "[]" and log' = "[]" and pf = example_platform
       and resp = ?resp,
     OF key client refl this env call call items]
  obtain rs where rs:
    "fst (list_resources example_platform (answering 200 ?env) (JStr []) (JStr ''secret'') [])
       = Inr (Resources rs)"
    "length rs = length example_clothes"
    "\<forall>i s. i < length example_clothes \<and> get_prop (example_clothes ! i) ''cloth_id'' = JStr s
        \<and> path_safe s
        \<and> (\<forall>j < i. \<not> loose_eq_string example_platform
                        (get_prop (example_clothes ! j) ''cloth_id'') s)
      \<longrightarrow> uri (rs ! i) = ''cloth:///'' @ s
        \<and> fst (read_resource example_platform (answering 200 ?env) (JStr []) (JStr ''secret'')
                 (uri (rs ! i)) [])
            = Inr (Contents
                [\<lparr> contents_uri = ''cloth:///'' @ s,
                   contents_mimeType = ''text/plain'',
                   contents_text = get_prop (example_clothes ! i) ''cloth_img_url'' \<rparr>])"
    by blast
  have "uri (rs ! 1) = ''cloth:///'' @ ''c-2''
        \<and> fst (read_resource example_platform (answering 200 ?env) (JStr []) (JStr ''secret'')
                 (uri (rs ! 1)) [])
            = Inr (Contents
                [\<lparr> contents_uri = ''cloth:///'' @ ''c-2'',
                   contents_mimeType = ''text/plain'',
                   contents_text = get_prop (example_clothes ! 1) ''cloth_img_url'' \<rparr>])"
    using rs(3) item safe earliest by blast
  then show ?thesis
    using rs(1,2) by (auto simp: example_clothes_def)
qed

text \<open>
  Claim C6, evaluated where the code departs from it. The remote's list holds one item,
  whose \<open>cloth_id\<close> is \<open>a b\<close>. The list-resources handler publishes it under the URI
  \<open>cloth:///a b\<close>. The read-resource handler, applied to that very URI while the remote
  returns the same list, takes the id from \<open>new URL(uri).pathname\<close>, which is \<open>/a%20b\<close>: the
  parser has percent-encoded the space and the handler does not decode it. It looks for
  the id \<open>a%20b\<close>, finds no item and fails, where the claim has it return the item's
  \<open>cloth_img_url\<close>.
\<close>

theorem cloth_id_with_space_is_not_found:
  "fst (list_resources example_platform
          (answering 200 (envelope 0 ''ok'' (JArr spaced_clothes))) (JStr []) (JStr ''secret'') [])
     = Inr (Resources [\<lparr> uri = ''cloth:///a b'', mimeType = ''text/plain'',
                         name = JStr ''Coat'', description = ''red coat'' \<rparr>])
   \<and> fst (read_resource example_platform
          (answering 200 (envelope 0 ''ok'' (JArr spaced_clothes))) (JStr []) (JStr ''secret'')
          ''cloth:///a b'' [])
     = Inl (Error ''read resource failed: Cloth a%20b not found'')"
  by code_simp

end
